theory Spec2Isabelle
  imports Complex_Main "HOL-Library.List_Lexorder" "HOL-Library.Char_ord"
begin

section \<open>JavaScript values and built-ins used by the sources\<close>

text \<open>
  A JSON-like JavaScript value, as \<^verbatim>\<open>req.json()\<close>, \<^verbatim>\<open>JSON.parse\<close> and the
  \<^verbatim>\<open>properties\<close> bag of a GeoJSON feature deliver it. A finite number is a rational
  (every finite double is one); the non-finite numbers are separate constructors.
\<close>

datatype jsval =
    JUndefined
  | JNull
  | JBoolean bool
  | JNumber rat
  | JNaN
  | JInfinity bool
  | JString string
  | JArray "jsval list"
  | JObject "(string \<times> jsval) list"

text \<open>Property access \<^verbatim>\<open>v?.[k]\<close> for the keys the sources read: own properties of an
  object; \<^verbatim>\<open>undefined\<close> on everything else.\<close>

fun getProp :: "jsval \<Rightarrow> string \<Rightarrow> jsval" where
  "getProp (JObject kvs) k = (case map_of kvs k of Some v \<Rightarrow> v | None \<Rightarrow> JUndefined)"
| "getProp v k = JUndefined"

text \<open>A JavaScript \<^verbatim>\<open>Map\<close>: insertion-ordered entries with unique keys.
  \<^verbatim>\<open>set\<close> replaces the value of an existing key in place and appends a new key.\<close>

type_synonym ('k, 'v) jsmap = "('k \<times> 'v) list"

fun Map_set :: "('k, 'v) jsmap \<Rightarrow> 'k \<Rightarrow> 'v \<Rightarrow> ('k, 'v) jsmap" where
  "Map_set [] k v = [(k, v)]"
| "Map_set (p # ps) k v = (if fst p = k then (k, v) # ps else p # Map_set ps k v)"

definition Map_get :: "('k, 'v) jsmap \<Rightarrow> 'k \<Rightarrow> 'v option" where
  "Map_get m k = map_of m k"

definition Map_keys :: "('k, 'v) jsmap \<Rightarrow> 'k list" where
  "Map_keys m = map fst m"

definition Map_values :: "('k, 'v) jsmap \<Rightarrow> 'v list" where
  "Map_values m = map snd m"

text \<open>Decimal digits of a non-negative integer.\<close>

definition digit_char :: "int \<Rightarrow> char" where
  "digit_char d = char_of (48 + d)"

function digits :: "int \<Rightarrow> string" where
  "digits n = (if n < 10 then [digit_char n] else digits (n div 10) @ [digit_char (n mod 10)])"
  by pat_completeness auto
termination
  by (relation "measure nat") auto

declare digits.simps [simp del]

text \<open>
  \<^verbatim>\<open>Number.prototype.toFixed(5)\<close> on a finite number (ECMAScript 21.1.3.3): a minus sign
  for a negative value, then the integer \<open>n\<close> nearest to \<open>|x| * 10^5\<close> (the larger one on a
  tie) written with at least six digits and a point before the last five. At \<open>10^21\<close> and
  above the built-in falls back to \<^verbatim>\<open>Number::toString\<close>, whose shortest round-trip
  digits depend on the binary format: that part is the parameter \<open>float_str\<close>.
\<close>

definition nearest5 :: "rat \<Rightarrow> int" where
  "nearest5 ax = \<lfloor>ax * 100000 + 1 / 2\<rfloor>"

definition toFixed5 :: "(rat \<Rightarrow> string) \<Rightarrow> rat \<Rightarrow> string" where
  "toFixed5 float_str x =
     (let s = (if x < 0 then ''-'' else '''');
          ax = \<bar>x\<bar>
      in if 10 ^ 21 \<le> ax then s @ float_str ax
         else
           let n = nearest5 ax;
               m = digits n;
               m' = (if length m \<le> 5 then replicate (6 - length m) (CHR ''0'') @ m else m);
               k = length m'
           in s @ take (k - 5) m' @ ''.'' @ drop (k - 5) m')"

text \<open>
  \<^verbatim>\<open>Number::toString\<close>, as the template literal applies it to \<^verbatim>\<open>body.minutes\<close>: an
  integer up to \<open>2^53\<close> in magnitude prints as its decimal digits; any other finite value
  goes through \<open>float_str\<close>.
\<close>

definition Number_toString :: "(rat \<Rightarrow> string) \<Rightarrow> rat \<Rightarrow> string" where
  "Number_toString float_str x =
     (if of_int \<lfloor>x\<rfloor> = x \<and> \<bar>x\<bar> \<le> 2 ^ 53
      then (if x < 0 then ''-'' else '''') @ digits \<bar>\<lfloor>x\<rfloor>\<bar>
      else float_str x)"

text \<open>
  The product of two doubles is the exact product rounded to the nearest double, a tie
  going to the even significand (IEEE 754 binary64). \<open>exponent_of x\<close> is the \<open>e\<close> with
  \<open>2^e \<le> x < 2^(e+1)\<close> for a positive \<open>x\<close>, found from the bit lengths of numerator and
  denominator; a double of that size is a multiple of \<open>2^(e-52)\<close>. The exponent is not
  bounded here: where the handler's product overflows to \<^verbatim>\<open>Infinity\<close> or falls below the
  normal range, the value here lies far above 10800 or far below 60 as well, and the clamp
  of line 49 gives the same seconds.
\<close>

function bit_length :: "int \<Rightarrow> int" where
  "bit_length n = (if n \<le> 0 then 0 else 1 + bit_length (n div 2))"
  by pat_completeness auto
termination
  by (relation "measure nat") auto

declare bit_length.simps [simp del]

definition pow2 :: "int \<Rightarrow> rat" where
  "pow2 e = (if 0 \<le> e then 2 ^ nat e else 1 / 2 ^ nat (- e))"

definition exponent_of :: "rat \<Rightarrow> int" where
  "exponent_of x =
     (let d = bit_length (fst (quotient_of x)) - bit_length (snd (quotient_of x))
      in if pow2 d \<le> x then d else d - 1)"

definition round_half_even :: "rat \<Rightarrow> int" where
  "round_half_even q =
     (let f = \<lfloor>q\<rfloor>; r = q - of_int f
      in if r < 1 / 2 then f else if 1 / 2 < r then f + 1 else if even f then f else f + 1)"

definition to_double :: "rat \<Rightarrow> rat" where
  "to_double x =
     (if x = 0 then 0
      else let ulp = pow2 (exponent_of \<bar>x\<bar> - 52) in of_int (round_half_even (x / ulp)) * ulp)"

definition times_double :: "rat \<Rightarrow> rat \<Rightarrow> rat" where
  "times_double x y = to_double (x * y)"

text \<open>\<^verbatim>\<open>Math.round\<close>: the nearest integer, a tie going up.\<close>

definition Math_round :: "rat \<Rightarrow> int" where
  "Math_round x = \<lfloor>x + 1 / 2\<rfloor>"

fun startsWith :: "string \<Rightarrow> string \<Rightarrow> bool" where
  "startsWith s [] = True"
| "startsWith [] (p # ps) = False"
| "startsWith (c # s) (p # ps) = (c = p \<and> startsWith s ps)"

fun includes_str :: "string \<Rightarrow> string \<Rightarrow> bool" where
  "includes_str [] p = (p = [])"
| "includes_str (c # s) p = (startsWith (c # s) p \<or> includes_str s p)"


section \<open>The isochrone route (src/app/api/isochrone/route.ts)\<close>

record IsochroneRequest =
  lat :: rat
  lng :: rat
  arriveByISO :: string
  minutes :: rat
  mode :: string

record cache_entry =
  expiresAt :: int
  geojson :: jsval

type_synonym cache = "(string, cache_entry) jsmap"

record payload =
  search_id :: string
  coords_lat :: rat
  coords_lng :: rat
  transportation_type :: string
  arrival_time_period :: string
  travel_time :: int

record outbound =
  app_id :: string
  api_key :: string
  request_body :: payload

record http_response =
  ok :: bool
  status :: int
  content_type :: "string option"
  body_text :: string

text \<open>The outcome of \<^verbatim>\<open>await fetch(...)\<close> followed by \<^verbatim>\<open>await resp.text()\<close>: either
  of them rejects, or the response is there with its body read.\<close>

datatype fetch_outcome = Rejected | Resolved http_response

text \<open>What the handler reads from outside: the provider behind \<^verbatim>\<open>fetch\<close>, the
  milliseconds that pass while the handler awaits it (from the clock reading of line 43 to
  the statement after the two \<^verbatim>\<open>await\<close>s), \<^verbatim>\<open>JSON.parse\<close> (\<open>None\<close> is its
  SyntaxError) and the printing of non-integer numbers.\<close>

record platform =
  fetch :: "outbound \<Rightarrow> fetch_outcome"
  elapsed :: "outbound \<Rightarrow> int"
  JSON_parse :: "string \<Rightarrow> jsval option"
  float_toString :: "rat \<Rightarrow> string"

record env =
  TRAVELTIME_APP_ID :: "string option"
  TRAVELTIME_API_KEY :: "string option"

text \<open>\<^verbatim>\<open>NextResponse.json(body, {status})\<close>: the success body, or an error message with
  its HTTP status (the diagnostic fields of the error bodies are left out).\<close>

datatype response = JsonOk jsval | JsonError string int

text \<open>What one request does: its response, the cache afterwards, the outbound calls it
  issued, and the clock at the moment its \<^verbatim>\<open>cache.set\<close> ran, if it ran.\<close>

record post_result =
  response :: response
  cache_after :: cache
  calls :: "outbound list"
  cache_set_at :: "int option"

definition cacheKey :: "platform \<Rightarrow> IsochroneRequest \<Rightarrow> string" where
  "cacheKey P body =
     toFixed5 (float_toString P) (lat body) @ '','' @ toFixed5 (float_toString P) (lng body)
     @ ''|'' @ arriveByISO body
     @ ''|'' @ Number_toString (float_toString P) (minutes body)
     @ ''|'' @ mode body"

text \<open>The basic validation, lines 22-30: \<^verbatim>\<open>Number.isFinite\<close> holds exactly of a finite
  number and \<^verbatim>\<open>typeof v === "string"\<close> exactly of a string; any other body is
  answered with status 400.\<close>

definition asIsochroneRequest :: "jsval \<Rightarrow> IsochroneRequest option" where
  "asIsochroneRequest body =
     (case (getProp body ''lat'', getProp body ''lng'', getProp body ''arriveByISO'',
            getProp body ''minutes'', getProp body ''mode'') of
        (JNumber la, JNumber lo, JString a, JNumber mi, JString mo) \<Rightarrow>
          Some \<lparr>lat = la, lng = lo, arriveByISO = a, minutes = mi, mode = mo\<rparr>
      | _ \<Rightarrow> None)"

text \<open>\<^verbatim>\<open>!appId\<close>: an unset or empty variable.\<close>

definition missing :: "string option \<Rightarrow> bool" where
  "missing v = (case v of None \<Rightarrow> True | Some s \<Rightarrow> s = [])"

definition travelTimeSeconds :: "rat \<Rightarrow> int" where
  "travelTimeSeconds mins = max 60 (min (Math_round (times_double mins 60)) 10800)"

definition make_payload :: "IsochroneRequest \<Rightarrow> payload" where
  "make_payload body =
     \<lparr>search_id = ''isochrone_1'',
      coords_lat = lat body,
      coords_lng = lng body,
      transportation_type = mode body,
      arrival_time_period = ''weekday_morning'',
      travel_time = travelTimeSeconds (minutes body)\<rparr>"

definition make_outbound :: "env \<Rightarrow> IsochroneRequest \<Rightarrow> outbound" where
  "make_outbound E body =
     \<lparr>app_id = (case TRAVELTIME_APP_ID E of Some a \<Rightarrow> a | None \<Rightarrow> []),
      api_key = (case TRAVELTIME_API_KEY E of Some k \<Rightarrow> k | None \<Rightarrow> []),
      request_body = make_payload body\<rparr>"

text \<open>Line 77, \<^verbatim>\<open>resp.headers.get("content-type") || ""\<close>.\<close>

definition contentType_of :: "http_response \<Rightarrow> string" where
  "contentType_of resp = (case content_type resp of None \<Rightarrow> [] | Some t \<Rightarrow> t)"

text \<open>Lines 78-110: what the handler does with the provider's answer. \<open>now\<close> is the
  \<^verbatim>\<open>Date.now()\<close> read at line 43, before the call; the answer is there
  \<open>elapsed P call\<close> milliseconds later. The only \<open>Map_set\<close> of the cache is the last branch:
  it runs at \<open>now + elapsed P call\<close> and computes the expiry from \<open>now\<close>.\<close>

definition settle :: "platform \<Rightarrow> int \<Rightarrow> cache \<Rightarrow> string \<Rightarrow> outbound \<Rightarrow> http_response \<Rightarrow> post_result" where
  "settle P now c key call resp =
     (let contentType = contentType_of resp
      in if \<not> ok resp then
           \<lparr>response = JsonError ''TravelTime request failed'' 502, cache_after = c,
            calls = [call], cache_set_at = None\<rparr>
         else
           (case (if includes_str contentType ''json'' then JSON_parse P (body_text resp)
                  else Some (JString (body_text resp))) of
              None \<Rightarrow>
                \<lparr>response = JsonError ''TravelTime returned non-JSON response'' 502,
                 cache_after = c, calls = [call], cache_set_at = None\<rparr>
            | Some g \<Rightarrow>
                \<lparr>response = JsonOk g,
                 cache_after = Map_set c key \<lparr>expiresAt = now + 10 * 60 * 1000, geojson = g\<rparr>,
                 calls = [call], cache_set_at = Some (now + elapsed P call)\<rparr>))"

text \<open>Lines 44-45, \<^verbatim>\<open>hit && hit.expiresAt > now\<close>: the entry under the key, if there is
  one and its expiry is strictly later than \<open>now\<close>. Nothing is removed or rewritten.\<close>

definition fresh_hit :: "cache \<Rightarrow> string \<Rightarrow> int \<Rightarrow> cache_entry option" where
  "fresh_hit c key now =
     (case Map_get c key of
        None \<Rightarrow> None
      | Some h \<Rightarrow> (if expiresAt h > now then Some h else None))"

text \<open>Lines 49-110: the outbound call. A rejection of \<^verbatim>\<open>fetch\<close> or of
  \<^verbatim>\<open>resp.text()\<close> ends in the outer \<^verbatim>\<open>catch\<close>.\<close>

definition call_provider :: "platform \<Rightarrow> env \<Rightarrow> int \<Rightarrow> cache \<Rightarrow> string \<Rightarrow> IsochroneRequest \<Rightarrow> post_result" where
  "call_provider P E now c key body =
     (let call = make_outbound E body
      in (case fetch P call of
            Rejected \<Rightarrow>
              \<lparr>response = JsonError ''Isochrone route crashed'' 500, cache_after = c,
               calls = [call], cache_set_at = None\<rparr>
          | Resolved resp \<Rightarrow> settle P now c key call resp))"

text \<open>The handler on a validated body, lines 32-47.\<close>

definition handle :: "platform \<Rightarrow> env \<Rightarrow> int \<Rightarrow> cache \<Rightarrow> IsochroneRequest \<Rightarrow> post_result" where
  "handle P E now c body =
     (if missing (TRAVELTIME_APP_ID E) \<or> missing (TRAVELTIME_API_KEY E) then
        \<lparr>response = JsonError ''Missing env vars TRAVELTIME_APP_ID / TRAVELTIME_API_KEY'' 500,
         cache_after = c, calls = [], cache_set_at = None\<rparr>
      else
        (let key = cacheKey P body
         in (case fresh_hit c key now of
               Some h \<Rightarrow> \<lparr>response = JsonOk (geojson h), cache_after = c, calls = [],
                          cache_set_at = None\<rparr>
             | None \<Rightarrow> call_provider P E now c key body)))"

text \<open>The handler. \<open>req = None\<close> is a body that \<^verbatim>\<open>req.json()\<close> rejects, which ends in
  the outer \<^verbatim>\<open>catch\<close>. One request is one step on the cache: the handler touches it at
  the lookup and at the final \<^verbatim>\<open>cache.set\<close> only, and requests interleaving at its
  \<^verbatim>\<open>await\<close> are not modelled.\<close>

definition POST :: "platform \<Rightarrow> env \<Rightarrow> int \<Rightarrow> cache \<Rightarrow> jsval option \<Rightarrow> post_result" where
  "POST P E now c req =
     (case req of
        None \<Rightarrow> \<lparr>response = JsonError ''Isochrone route crashed'' 500, cache_after = c,
                  calls = [], cache_set_at = None\<rparr>
      | Some raw \<Rightarrow>
          (case asIsochroneRequest raw of
             None \<Rightarrow> \<lparr>response = JsonError ''Invalid request body'' 400, cache_after = c,
                       calls = [], cache_set_at = None\<rparr>
           | Some body \<Rightarrow> handle P E now c body))"

text \<open>A run of the route over successive requests, each with the clock reading and the
  provider it meets.\<close>

fun serve :: "env \<Rightarrow> cache \<Rightarrow> (platform \<times> int \<times> jsval option) list \<Rightarrow> cache" where
  "serve E c [] = c"
| "serve E c ((P, now, req) # rest) = serve E (cache_after (POST P E now c req)) rest"


section \<open>The areas within the commute (src/app/page.tsx)\<close>

text \<open>\<^verbatim>\<open>CommunityHit\<close>; its \<^verbatim>\<open>mode\<close> field is \<open>hit_mode\<close> here, the request record
  having taken the name.\<close>

record CommunityHit =
  name :: string
  hit_mode :: string

subsection \<open>pickCommunityName\<close>

definition truthy :: "jsval \<Rightarrow> bool" where
  "truthy v =
     (case v of
        JUndefined \<Rightarrow> False
      | JNull \<Rightarrow> False
      | JBoolean b \<Rightarrow> b
      | JNumber r \<Rightarrow> r \<noteq> 0
      | JNaN \<Rightarrow> False
      | JInfinity sg \<Rightarrow> True
      | JString s \<Rightarrow> s \<noteq> []
      | JArray vs \<Rightarrow> True
      | JObject kvs \<Rightarrow> True)"

fun typeof :: "jsval \<Rightarrow> string" where
  "typeof JUndefined = ''undefined''"
| "typeof JNull = ''object''"
| "typeof (JBoolean b) = ''boolean''"
| "typeof (JNumber r) = ''number''"
| "typeof JNaN = ''number''"
| "typeof (JInfinity sg) = ''number''"
| "typeof (JString s) = ''string''"
| "typeof (JArray vs) = ''object''"
| "typeof (JObject kvs) = ''object''"

text \<open>
  \<^verbatim>\<open>String.prototype.trim\<close> strips the white space and line terminators of ECMAScript
  from both ends. A string here is the UTF-8 encoding of the JavaScript string, so each of
  those characters is a sequence of one to three bytes: U+0009 to U+000D, U+0020, U+00A0,
  U+1680, U+2000 to U+200A, U+2028, U+2029, U+202F, U+205F, U+3000 and U+FEFF.
\<close>

definition white_space :: "string list" where
  "white_space =
     [[CHR 0x09], [CHR 0x0A], [CHR 0x0B], [CHR 0x0C], [CHR 0x0D], [CHR 0x20],
      [CHR 0xC2, CHR 0xA0],
      [CHR 0xE1, CHR 0x9A, CHR 0x80],
      [CHR 0xE2, CHR 0x80, CHR 0x80], [CHR 0xE2, CHR 0x80, CHR 0x81],
      [CHR 0xE2, CHR 0x80, CHR 0x82], [CHR 0xE2, CHR 0x80, CHR 0x83],
      [CHR 0xE2, CHR 0x80, CHR 0x84], [CHR 0xE2, CHR 0x80, CHR 0x85],
      [CHR 0xE2, CHR 0x80, CHR 0x86], [CHR 0xE2, CHR 0x80, CHR 0x87],
      [CHR 0xE2, CHR 0x80, CHR 0x88], [CHR 0xE2, CHR 0x80, CHR 0x89],
      [CHR 0xE2, CHR 0x80, CHR 0x8A],
      [CHR 0xE2, CHR 0x80, CHR 0xA8], [CHR 0xE2, CHR 0x80, CHR 0xA9],
      [CHR 0xE2, CHR 0x80, CHR 0xAF],
      [CHR 0xE2, CHR 0x81, CHR 0x9F],
      [CHR 0xE3, CHR 0x80, CHR 0x80],
      [CHR 0xEF, CHR 0xBB, CHR 0xBF]]"

text \<open>The number of bytes of the character of \<open>ws\<close> that \<open>s\<close> starts with, 0 if it starts
  with none; \<open>strip\<close> removes such characters from the front for as long as there is one.\<close>

definition leading_space :: "string list \<Rightarrow> string \<Rightarrow> nat" where
  "leading_space ws s = (case find (startsWith s) ws of None \<Rightarrow> 0 | Some w \<Rightarrow> length w)"

function strip :: "string list \<Rightarrow> string \<Rightarrow> string" where
  "strip ws s =
     (if leading_space ws s = 0 \<or> s = [] then s else strip ws (drop (leading_space ws s) s))"
  by pat_completeness auto
termination
  by (relation "measure (\<lambda>(ws, s). length s)") auto

declare strip.simps [simp del]

definition trim :: "string \<Rightarrow> string" where
  "trim s = rev (strip (map rev white_space) (rev (strip white_space s)))"

text \<open>The local list \<^verbatim>\<open>candidates\<close> of attribute keys, in priority order.\<close>

definition name_keys :: "string list" where
  "name_keys = [''GSA_NAME'', ''COMMUNITY'', ''COMMUNITY_NAME'', ''community_name'',
                ''NAME'', ''name'', ''label'', ''LABEL'']"

fun first_name :: "jsval \<Rightarrow> string list \<Rightarrow> string" where
  "first_name props [] = ''Unnamed area''"
| "first_name props (k # ks) =
     (case getProp props k of
        JString v \<Rightarrow> (if trim v \<noteq> [] then trim v else first_name props ks)
      | _ \<Rightarrow> first_name props ks)"

definition pickCommunityName :: "jsval \<Rightarrow> string" where
  "pickCommunityName props =
     (if \<not> truthy props \<or> typeof props \<noteq> ''object'' then ''Unnamed area''
      else first_name props name_keys)"

subsection \<open>GeoJSON and the geometry library\<close>

text \<open>
  A feature has a geometry, possibly \<^verbatim>\<open>null\<close>, and a property bag; the geometry itself
  is only ever handed to turf, so its type \<open>'g\<close> is left open. The collections are parsed
  JSON that nothing validates, so the \<^verbatim>\<open>features\<close> member of one is any of: missing or
  falsy (\<open>Missing\<close>); a truthy value that cannot be iterated, such as an object or a number
  (\<open>NotIterable\<close>); or an array, whose elements are features or \<^verbatim>\<open>null\<close> (\<open>None\<close>). An
  element that is neither an object nor \<^verbatim>\<open>null\<close> reads as a feature without geometry.
\<close>

record 'g feature =
  geometry :: "'g option"
  properties :: jsval

datatype 'g features_member = Missing | NotIterable | Items "'g feature option list"

record 'g feature_collection =
  features :: "'g features_member"

text \<open>A bounding box \<^verbatim>\<open>[minLng, minLat, maxLng, maxLat]\<close> over any linearly ordered
  numbers (the finite doubles with both infinities are such).\<close>

type_synonym 'n bbox = "'n \<times> 'n \<times> 'n \<times> 'n"

text \<open>A JavaScript exception.\<close>

datatype error = Thrown string

text \<open>
  The four functions of \<^verbatim>\<open>@turf/turf\<close> that the page calls. They are library code:
  each is a parameter, and each may throw (\<open>Inl\<close>), as a JavaScript call can. \<open>'p\<close> is
  the point feature \<^verbatim>\<open>turf.centroid\<close> returns.
\<close>

record ('g, 'p, 'n) turf =
  combine :: "'g feature_collection \<Rightarrow> error + 'g feature_collection"
  bbox :: "'g feature \<Rightarrow> error + 'n bbox"
  centroid :: "'g feature \<Rightarrow> error + 'p"
  booleanPointInPolygon :: "'p \<Rightarrow> 'g feature \<Rightarrow> error + bool"

subsection \<open>The matching effect, lines 139-194\<close>

text \<open>Line 170.\<close>

fun bboxIntersects :: "'n::linorder bbox \<Rightarrow> 'n bbox \<Rightarrow> bool" where
  "bboxIntersects (b0, b1, b2, b3) (isoBbox0, isoBbox1, isoBbox2, isoBbox3) =
     (\<not> (b2 < isoBbox0 \<or> b0 > isoBbox2 \<or> b3 < isoBbox1 \<or> b1 > isoBbox3))"

text \<open>Lines 173-179: the centroid test inside its \<^verbatim>\<open>try\<close>; whatever either call
  throws is caught and leaves \<^verbatim>\<open>inside = false\<close>.\<close>

definition inside_test :: "('g, 'p, 'n) turf \<Rightarrow> 'g feature \<Rightarrow> 'g feature \<Rightarrow> bool" where
  "inside_test T f isoFeature =
     (case centroid T f of
        Inl e \<Rightarrow> False
      | Inr c \<Rightarrow> (case booleanPointInPolygon T c isoFeature of Inl e \<Rightarrow> False | Inr r \<Rightarrow> r))"

text \<open>\<^verbatim>\<open>mode.replaceAll("_", " ")\<close>.\<close>

definition replaceAll :: "string \<Rightarrow> char \<Rightarrow> char \<Rightarrow> string" where
  "replaceAll s a b = map (\<lambda>ch. if ch = a then b else ch) s"

text \<open>The state of the loop: the array \<^verbatim>\<open>hits\<close>, and the candidates for which the
  \<^verbatim>\<open>try\<close> block of the centroid test was entered, in order.\<close>

record 'g scan =
  hits :: "CommunityHit list"
  tested :: "'g feature list"

text \<open>The loop body, lines 166-186, for one candidate \<open>f\<close> that is an object (a
  \<^verbatim>\<open>null\<close> element is handled in \<open>scan_features\<close> below). \<^verbatim>\<open>turf.bbox(f)\<close> stands
  outside the \<^verbatim>\<open>try\<close>: what it throws leaves the effect.\<close>

definition visit :: "('g, 'p, 'n::linorder) turf \<Rightarrow> 'g feature \<Rightarrow> 'n bbox \<Rightarrow> string \<Rightarrow> 'g scan \<Rightarrow> 'g feature \<Rightarrow> error + 'g scan" where
  "visit T isoFeature isoBbox md st f =
     (if geometry f = None then Inr st
      else
        (case bbox T f of
           Inl e \<Rightarrow> Inl e
         | Inr b \<Rightarrow>
             if \<not> bboxIntersects b isoBbox then Inr st
             else if \<not> inside_test T f isoFeature then Inr (st\<lparr>tested := tested st @ [f]\<rparr>)
             else Inr \<lparr>hits = hits st @ [\<lparr>name = pickCommunityName (properties f),
                                          hit_mode = replaceAll md (CHR ''_'') (CHR '' '')\<rparr>],
                      tested = tested st @ [f]\<rparr>))"

text \<open>The \<^verbatim>\<open>for...of\<close> of line 165 over an array. At a \<^verbatim>\<open>null\<close> element the read
  \<^verbatim>\<open>f.geometry\<close> of line 166 throws a TypeError, outside the \<^verbatim>\<open>try\<close>.\<close>

fun scan_features :: "('g, 'p, 'n::linorder) turf \<Rightarrow> 'g feature \<Rightarrow> 'n bbox \<Rightarrow> string \<Rightarrow> 'g feature option list \<Rightarrow> 'g scan \<Rightarrow> error + 'g scan" where
  "scan_features T isoFeature isoBbox md [] st = Inr st"
| "scan_features T isoFeature isoBbox md (None # fs) st = Inl (Thrown ''TypeError'')"
| "scan_features T isoFeature isoBbox md (Some f # fs) st =
     (case visit T isoFeature isoBbox md st f of
        Inl e \<Rightarrow> Inl e
      | Inr st' \<Rightarrow> scan_features T isoFeature isoBbox md fs st')"

text \<open>\<^verbatim>\<open>new Map(entries)\<close> sets the entries one after the other.\<close>

definition new_Map :: "('k \<times> 'v) list \<Rightarrow> ('k, 'v) jsmap" where
  "new_Map entries = foldl (\<lambda>m (k, v). Map_set m k v) [] entries"

text \<open>\<^verbatim>\<open>Array.prototype.sort(compareFn)\<close>, which is stable: an insertion sort that puts
  an element before the first one it does not compare greater than.\<close>

fun insert_by :: "('a \<Rightarrow> 'a \<Rightarrow> int) \<Rightarrow> 'a \<Rightarrow> 'a list \<Rightarrow> 'a list" where
  "insert_by cmp x [] = [x]"
| "insert_by cmp x (y # ys) = (if cmp x y \<le> 0 then x # y # ys else y # insert_by cmp x ys)"

definition sort_by :: "('a \<Rightarrow> 'a \<Rightarrow> int) \<Rightarrow> 'a list \<Rightarrow> 'a list" where
  "sort_by cmp xs = foldr (insert_by cmp) xs []"

text \<open>Lines 189-191. \<open>localeCompare\<close> is the host's collation, a parameter.\<close>

definition uniq :: "(string \<Rightarrow> string \<Rightarrow> int) \<Rightarrow> CommunityHit list \<Rightarrow> CommunityHit list" where
  "uniq localeCompare hs =
     sort_by (\<lambda>a b. localeCompare (name a) (name b))
       (Map_values (new_Map (map (\<lambda>h. (name h, h)) hs)))"

text \<open>\<^verbatim>\<open>combined.features?.[0]\<close>, with the test \<^verbatim>\<open>!isoFeature\<close> of line 150: the first
  element of the array if there is one and it is not \<^verbatim>\<open>null\<close>.\<close>

definition first_feature :: "'g feature_collection \<Rightarrow> 'g feature option" where
  "first_feature fc = (case features fc of Items (Some f # es) \<Rightarrow> Some f | _ \<Rightarrow> None)"

text \<open>\<^verbatim>\<open>communities.features || []\<close> as the \<^verbatim>\<open>for...of\<close> takes it: the elements to
  go through, or \<open>None\<close> when the value is not iterable.\<close>

definition features_or_empty :: "'g feature_collection \<Rightarrow> 'g feature option list option" where
  "features_or_empty fc =
     (case features fc of Missing \<Rightarrow> Some [] | NotIterable \<Rightarrow> None | Items es \<Rightarrow> Some es)"

text \<open>Lines 140-187. \<open>Inr None\<close> is one of the two early returns with
  \<^verbatim>\<open>setWithin([])\<close>; \<open>Inl\<close> is an exception leaving the effect: one thrown by
  \<^verbatim>\<open>turf.combine\<close> or \<^verbatim>\<open>turf.bbox\<close>, the TypeError of a \<^verbatim>\<open>for...of\<close> over
  something not iterable, or one from inside the loop.\<close>

definition within_scan :: "('g, 'p, 'n::linorder) turf \<Rightarrow> 'g feature_collection option \<Rightarrow> 'g feature_collection option \<Rightarrow> string \<Rightarrow> error + 'g scan option" where
  "within_scan T isochrone communities md =
     (case isochrone of
        None \<Rightarrow> Inr None
      | Some isoFC \<Rightarrow>
          (case communities of
             None \<Rightarrow> Inr None
           | Some comm \<Rightarrow>
               (case combine T isoFC of
                  Inl e \<Rightarrow> Inl e
                | Inr combined \<Rightarrow>
                    (case first_feature combined of
                       None \<Rightarrow> Inr None
                     | Some isoFeature \<Rightarrow>
                         (case bbox T isoFeature of
                            Inl e \<Rightarrow> Inl e
                          | Inr isoBbox \<Rightarrow>
                              (case features_or_empty comm of
                                 None \<Rightarrow> Inl (Thrown ''TypeError'')
                               | Some es \<Rightarrow>
                                   (case scan_features T isoFeature isoBbox md es
                                           \<lparr>hits = [], tested = []\<rparr> of
                                      Inl e \<Rightarrow> Inl e
                                    | Inr st \<Rightarrow> Inr (Some st))))))))"

text \<open>The effect: the list handed to \<^verbatim>\<open>setWithin\<close>, or the exception.\<close>

definition within_areas :: "('g, 'p, 'n::linorder) turf \<Rightarrow> (string \<Rightarrow> string \<Rightarrow> int) \<Rightarrow> 'g feature_collection option \<Rightarrow> 'g feature_collection option \<Rightarrow> string \<Rightarrow> error + CommunityHit list" where
  "within_areas T localeCompare isochrone communities md =
     (case within_scan T isochrone communities md of
        Inl e \<Rightarrow> Inl e
      | Inr None \<Rightarrow> Inr []
      | Inr (Some st) \<Rightarrow> Inr (uniq localeCompare (hits st)))"


section \<open>Concrete surroundings for the worked examples\<close>

text \<open>A stand-in for turf on three kinds of geometry: a rectangle; a sliver, whose box is
  known but whose centroid computation throws; and a polygon without coordinates, on which
  the library throws a TypeError wherever it walks the coordinates.\<close>

datatype geom = Box rat rat rat rat | Sliver rat rat rat rat | NoCoordinates

definition box_bbox :: "geom feature \<Rightarrow> error + rat bbox" where
  "box_bbox f =
     (case geometry f of
        Some (Box a b c d) \<Rightarrow> Inr (a, b, c, d)
      | Some (Sliver a b c d) \<Rightarrow> Inr (a, b, c, d)
      | _ \<Rightarrow> Inl (Thrown ''TypeError''))"

definition box_centroid :: "geom feature \<Rightarrow> error + rat \<times> rat" where
  "box_centroid f =
     (case geometry f of
        Some (Box a b c d) \<Rightarrow> Inr ((a + c) / 2, (b + d) / 2)
      | _ \<Rightarrow> Inl (Thrown ''TypeError''))"

definition box_contains :: "rat \<times> rat \<Rightarrow> geom feature \<Rightarrow> error + bool" where
  "box_contains p f =
     (case geometry f of
        Some (Box a b c d) \<Rightarrow> Inr (a \<le> fst p \<and> fst p \<le> c \<and> b \<le> snd p \<and> snd p \<le> d)
      | _ \<Rightarrow> Inl (Thrown ''TypeError''))"

definition with_geometry :: "geom feature option \<Rightarrow> bool" where
  "with_geometry e = (case e of None \<Rightarrow> False | Some f \<Rightarrow> geometry f \<noteq> None)"

definition box_turf :: "(geom, rat \<times> rat, rat) turf" where
  "box_turf =
     \<lparr>combine = (\<lambda>fc. Inr \<lparr>features = Items (take 1 (filter with_geometry
                                                    (case features fc of Items es \<Rightarrow> es
                                                                       | _ \<Rightarrow> [])))\<rparr>),
      bbox = box_bbox,
      centroid = box_centroid,
      booleanPointInPolygon = box_contains\<rparr>"

definition area :: "string \<Rightarrow> string \<Rightarrow> geom \<Rightarrow> geom feature" where
  "area k v g = \<lparr>geometry = Some g, properties = JObject [(k, JString v)]\<rparr>"

definition catchment :: "geom feature_collection" where
  "catchment = \<lparr>features = Items [Some \<lparr>geometry = Some (Box 0 0 10 10), properties = JNull\<rparr>]\<rparr>"

text \<open>Comparison of strings by their bytes, in place of the host's collation.\<close>

definition byte_compare :: "string \<Rightarrow> string \<Rightarrow> int" where
  "byte_compare a b = (if a < b then - 1 else if a = b then 0 else 1)"

text \<open>The body the page posts (page.tsx, lines 116-122).\<close>

definition request_json :: "IsochroneRequest \<Rightarrow> jsval" where
  "request_json b =
     JObject [(''lat'', JNumber (lat b)), (''lng'', JNumber (lng b)),
              (''arriveByISO'', JString (arriveByISO b)), (''minutes'', JNumber (minutes b)),
              (''mode'', JString (mode b))]"

definition halifax :: IsochroneRequest where
  "halifax = \<lparr>lat = 44.6511, lng = - 63.5827, arriveByISO = ''2026-11-03T08:30:00-04:00'',
              minutes = 30, mode = ''public_transport''\<rparr>"

definition env_set :: env where
  "env_set = \<lparr>TRAVELTIME_APP_ID = Some ''app'', TRAVELTIME_API_KEY = Some ''key''\<rparr>"

text \<open>Four providers, each taking four seconds: one answers every call with a JSON body,
  one answers 503, one sends a body that does not parse although its content type says
  JSON, and one answers 200 with an HTML page under the content type of HTML.\<close>

definition provider_up :: platform where
  "provider_up =
     \<lparr>fetch = (\<lambda>call. Resolved \<lparr>ok = True, status = 200,
                 content_type = Some ''application/geo+json'', body_text = ''[]''\<rparr>),
      elapsed = (\<lambda>call. 4000),
      JSON_parse = (\<lambda>s. if s = ''[]'' then Some (JArray []) else None),
      float_toString = (\<lambda>x. [])\<rparr>"

definition provider_down :: platform where
  "provider_down =
     \<lparr>fetch = (\<lambda>call. Resolved \<lparr>ok = False, status = 503,
                 content_type = Some ''text/html'', body_text = ''Service Unavailable''\<rparr>),
      elapsed = (\<lambda>call. 4000),
      JSON_parse = (\<lambda>s. if s = ''[]'' then Some (JArray []) else None),
      float_toString = (\<lambda>x. [])\<rparr>"

definition provider_garbled :: platform where
  "provider_garbled =
     \<lparr>fetch = (\<lambda>call. Resolved \<lparr>ok = True, status = 200,
                 content_type = Some ''application/json'', body_text = ''<html>''\<rparr>),
      elapsed = (\<lambda>call. 4000),
      JSON_parse = (\<lambda>s. if s = ''[]'' then Some (JArray []) else None),
      float_toString = (\<lambda>x. [])\<rparr>"

definition provider_html :: platform where
  "provider_html =
     \<lparr>fetch = (\<lambda>call. Resolved \<lparr>ok = True, status = 200,
                 content_type = Some ''text/html'', body_text = ''<html>''\<rparr>),
      elapsed = (\<lambda>call. 4000),
      JSON_parse = (\<lambda>s. if s = ''[]'' then Some (JArray []) else None),
      float_toString = (\<lambda>x. [])\<rparr>"

text \<open>Six candidate areas around the catchment: two resolve to the same name through
  different keys, one lies far away, one touches the catchment box from outside, and one is a
  sliver.\<close>

definition halifax_areas :: "geom feature_collection" where
  "halifax_areas = \<lparr>features = Items
     [Some (area ''GSA_NAME'' ''Bedford'' (Box 1 1 3 3)),
      Some (area ''NAME'' ''Armdale'' (Box 4 4 6 6)),
      Some (area ''NAME'' '' Bedford '' (Box 7 7 9 9)),
      Some (area ''NAME'' ''Sambro'' (Box 20 20 30 30)),
      Some (area ''NAME'' ''Timberlea'' (Box 10 0 12 2)),
      Some (area ''NAME'' ''Fairview'' (Sliver 2 2 3 3))]\<rparr>"


text \<open>A geometry library every call of which throws.\<close>

definition failing_turf :: "(geom, rat \<times> rat, rat) turf" where
  "failing_turf =
     \<lparr>combine = (\<lambda>fc. Inl (Thrown ''Error'')),
      bbox = (\<lambda>f. Inl (Thrown ''Error'')),
      centroid = (\<lambda>f. Inl (Thrown ''Error'')),
      booleanPointInPolygon = (\<lambda>p f. Inl (Thrown ''Error''))\<rparr>"

text \<open>A cache holding one entry, for the request \<open>halifax\<close>, that expires at 600000.\<close>

definition warm_cache :: cache where
  "warm_cache = [(''44.65110,-63.58270|2026-11-03T08:30:00-04:00|30|public_transport'',
                  \<lparr>expiresAt = 600000, geojson = JArray []\<rparr>)]"


section \<open>Facts about the built-ins\<close>

subsection \<open>Rounding to a double\<close>

text \<open>\<open>bit_length n\<close> is the number of binary digits of a positive \<open>n\<close>.\<close>

lemma bit_length_pos: "0 < n \<Longrightarrow> 0 < bit_length n"
proof (induction n rule: bit_length.induct)
  case (1 n)
  have "0 \<le> bit_length (n div 2)"
  proof (cases "0 < n div 2")
    case True
    with 1 show ?thesis by simp
  next
    case False
    then show ?thesis by (subst bit_length.simps) simp
  qed
  with 1(2) show ?case by (subst bit_length.simps) simp
qed

lemma bit_length_bounds:
  "0 < n \<Longrightarrow> 2 ^ nat (bit_length n - 1) \<le> n \<and> n < 2 ^ nat (bit_length n)"
proof (induction n rule: bit_length.induct)
  case (1 n)
  show ?case
  proof (cases "n = 1")
    case True
    have "bit_length 1 = 1"
      by (subst bit_length.simps, simp, subst bit_length.simps, simp)
    with True show ?thesis by simp
  next
    case False
    with 1(2) have h: "0 < n div 2" by simp
    with 1 have ih: "2 ^ nat (bit_length (n div 2) - 1) \<le> n div 2 \<and> n div 2 < 2 ^ nat (bit_length (n div 2))"
      by simp
    have bl: "bit_length n = 1 + bit_length (n div 2)"
      using 1(2) by (subst bit_length.simps) simp
    have p: "0 < bit_length (n div 2)" using h by (rule bit_length_pos)
    then have e1: "nat (bit_length n - 1) = Suc (nat (bit_length (n div 2) - 1))"
      and e2: "nat (bit_length n) = Suc (nat (bit_length (n div 2)))"
      using bl by simp_all
    from ih have "2 * 2 ^ nat (bit_length (n div 2) - 1) \<le> n"
      by linarith
    moreover from ih have "n < 2 * 2 ^ nat (bit_length (n div 2))"
      by linarith
    ultimately show ?thesis by (simp add: e1 e2)
  qed
qed

lemma pow2_powi: "pow2 e = 2 powi e"
  by (simp add: pow2_def power_int_def inverse_eq_divide power_one_over)

text \<open>\<open>exponent_of x\<close> is the binary exponent of a positive \<open>x\<close>.\<close>

lemma exponent_of_bounds:
  assumes "0 < x"
  shows "pow2 (exponent_of x) \<le> x \<and> x < pow2 (exponent_of x + 1)"
proof -
  obtain a b where q: "quotient_of x = (a, b)" by (cases "quotient_of x")
  then have b: "0 < b" and x: "x = of_int a / of_int b"
    using quotient_of_denom_pos [OF q] quotient_of_div [OF q] by simp_all
  with assms have a: "0 < a"
    by (simp add: zero_less_divide_iff)
  let ?la = "bit_length a" and ?lb = "bit_length b"
  let ?d = "?la - ?lb"
  from bit_length_bounds [OF a] have a1: "(2::rat) powi (?la - 1) \<le> of_int a" and a2: "of_int a < (2::rat) powi ?la"
    using bit_length_pos [OF a]
    by (simp_all add: power_int_def)
  from bit_length_bounds [OF b] have b1: "(2::rat) powi (?lb - 1) \<le> of_int b" and b2: "of_int b < (2::rat) powi ?lb"
    using bit_length_pos [OF b]
    by (simp_all add: power_int_def)
  have bpos: "(0::rat) < of_int b" using b by simp
  have lo: "(2::rat) powi (?d - 1) < x"
  proof -
    have "(2::rat) powi (?d - 1) * of_int b < 2 powi (?d - 1) * 2 powi ?lb"
      using b2 by (simp add: zero_less_power_int)
    also have "\<dots> = 2 powi (?la - 1)"
      by (simp flip: power_int_add)
    also have "\<dots> \<le> of_int a" by (rule a1)
    finally show ?thesis
      using bpos by (simp add: x pos_less_divide_eq)
  qed
  have hi: "x < (2::rat) powi (?d + 1)"
  proof -
    have "of_int a < (2::rat) powi ?la" by (rule a2)
    also have "\<dots> = 2 powi (?d + 1) * 2 powi (?lb - 1)"
      by (simp flip: power_int_add)
    also have "\<dots> \<le> 2 powi (?d + 1) * of_int b"
      using b1 by (simp add: zero_less_power_int)
    finally show ?thesis
      using bpos by (simp add: x pos_divide_less_eq)
  qed
  show ?thesis
    using lo hi q by (auto simp: exponent_of_def Let_def pow2_powi not_le)
qed

lemma round_half_even_near: "\<bar>of_int (round_half_even q) - q\<bar> \<le> 1 / 2"
proof -
  have "of_int \<lfloor>q\<rfloor> \<le> q" "q < of_int \<lfloor>q\<rfloor> + 1"
    by linarith+
  then show ?thesis
    by (auto simp: round_half_even_def Let_def abs_le_iff)
qed

lemma pow2_pos: "0 < pow2 e"
  by (simp add: pow2_powi zero_less_power_int)

text \<open>\<open>to_double x\<close> has a significand of at most 53 bits and lies within half a unit in
  the last place of \<open>x\<close>; at a tie \<open>round_half_even\<close> takes the even significand.\<close>

lemma to_double_nearest:
  assumes "x \<noteq> 0"
  shows "\<bar>to_double x - x\<bar> \<le> pow2 (exponent_of \<bar>x\<bar> - 52) / 2
       \<and> (\<exists>n. to_double x = of_int n * pow2 (exponent_of \<bar>x\<bar> - 52) \<and> \<bar>n\<bar> \<le> 2 ^ 53)"
proof -
  let ?u = "pow2 (exponent_of \<bar>x\<bar> - 52)"
  let ?n = "round_half_even (x / ?u)"
  have u: "0 < ?u" by (rule pow2_pos)
  have td: "to_double x = of_int ?n * ?u"
    using assms by (simp add: to_double_def Let_def)
  have "to_double x - x = (of_int ?n - x / ?u) * ?u"
    using u by (simp add: td algebra_simps)
  then have "\<bar>to_double x - x\<bar> = \<bar>of_int ?n - x / ?u\<bar> * ?u"
    using u by (simp add: abs_mult)
  also have "\<dots> \<le> 1 / 2 * ?u"
    using round_half_even_near [of "x / ?u"] u by (intro mult_right_mono) simp_all
  finally have near: "\<bar>to_double x - x\<bar> \<le> ?u / 2" by simp
  define K :: int where "K = 2 ^ 53"
  define q where "q = x / ?u"
  from assms have "0 < \<bar>x\<bar>" by simp
  from exponent_of_bounds [OF this] have "\<bar>x\<bar> < pow2 (exponent_of \<bar>x\<bar> + 1)" by simp
  also have "\<dots> = of_int K * ?u"
  proof -
    define e where "e = exponent_of \<bar>x\<bar> - 52"
    have "(2::rat) powi (53 + e) = 2 powi 53 * 2 powi e"
      by (rule power_int_add) simp
    moreover have "(2::rat) powi 53 = of_int K"
      by (simp add: power_int_def K_def)
    moreover have "exponent_of \<bar>x\<bar> + 1 = 53 + e"
      by (simp add: e_def)
    ultimately have "(2::rat) powi (exponent_of \<bar>x\<bar> + 1) = of_int K * 2 powi e"
      by (simp only:)
    then show ?thesis
      by (simp only: pow2_powi e_def)
  qed
  finally have "\<bar>x\<bar> / ?u < of_int K"
    using u by (simp only: pos_divide_less_eq)
  then have "\<bar>q\<bar> < of_int K"
    using u by (simp add: q_def abs_divide)
  moreover have "\<bar>of_int (round_half_even q) - q\<bar> \<le> 1 / 2"
    by (rule round_half_even_near)
  ultimately have "\<bar>(of_int (round_half_even q) :: rat)\<bar> < of_int K + 1"
    by linarith
  then have "(of_int \<bar>round_half_even q\<bar> :: rat) < of_int (K + 1)"
    by (simp only: of_int_abs of_int_add of_int_1)
  then have "\<bar>round_half_even q\<bar> < K + 1"
    by (simp only: of_int_less_iff)
  then have "\<bar>?n\<bar> \<le> 2 ^ 53"
    by (simp add: K_def q_def)
  with near td show ?thesis by blast
qed

subsection \<open>Doubles and white space on examples\<close>

text \<open>One tenth and \<open>2^53 + 1\<close> as doubles. The double nearest 1.075 times 60 is 64.5 as a
  double product and a little less as an exact one, which makes 65 seconds and not 64.\<close>

lemma to_double_examples:
  "to_double (1 / 10) = 3602879701896397 / 36028797018963968
   \<and> to_double 9007199254740993 = 9007199254740992
   \<and> times_double (4841369599423283 / 4503599627370496) 60 = 129 / 2
   \<and> travelTimeSeconds (4841369599423283 / 4503599627370496) = 65
   \<and> Math_round (4841369599423283 / 4503599627370496 * 60) = 64"
  by code_simp

text \<open>A no-break space in front and a line separator with a tab behind.\<close>

lemma trim_example:
  "trim ([CHR 0xC2, CHR 0xA0] @ ''Cole Harbour'' @ [CHR 0xE2, CHR 0x80, CHR 0xA8, CHR 0x09])
     = ''Cole Harbour''"
  by code_simp

subsection \<open>Map\<close>

lemma map_of_Map_set: "map_of (Map_set m k v) = (map_of m)(k \<mapsto> v)"
  by (induction m) (auto simp: fun_eq_iff)

lemma Map_get_Map_set: "Map_get (Map_set m k v) k' = (if k' = k then Some v else Map_get m k')"
  by (simp add: Map_get_def map_of_Map_set)

lemma Map_keys_Map_set: "set (Map_keys (Map_set m k v)) = insert k (set (Map_keys m))"
  by (induction m) (auto simp: Map_keys_def)

lemma Map_set_keys_list:
  "map fst (Map_set m k v) = (if k \<in> set (map fst m) then map fst m else map fst m @ [k])"
  by (induction m) auto

lemma Map_set_entries: "set (Map_set m k v) \<subseteq> insert (k, v) (set m)"
  by (induction m) auto

lemma new_Map_fold_keys:
  "distinct (map fst m) \<Longrightarrow>
   distinct (map fst (foldl (\<lambda>m (k, v). Map_set m k v) m es))
   \<and> fst ` set (foldl (\<lambda>m (k, v). Map_set m k v) m es) = fst ` set m \<union> fst ` set es"
proof (induction es arbitrary: m)
  case Nil
  then show ?case by simp
next
  case (Cons e es)
  obtain k v where e: "e = (k, v)" by (cases e)
  have d: "distinct (map fst (Map_set m k v))"
    using Cons.prems by (simp add: Map_set_keys_list)
  have s: "fst ` set (Map_set m k v) = insert k (fst ` set m)"
    using Map_set_keys_list [of m k v] by (metis Map_keys_Map_set Map_keys_def list.set_map)
  from Cons.IH [OF d] show ?case
    by (simp add: e s)
qed

lemma new_Map_fold_entries:
  "set (foldl (\<lambda>m (k, v). Map_set m k v) m es) \<subseteq> set m \<union> set es"
proof (induction es arbitrary: m)
  case Nil
  then show ?case by simp
next
  case (Cons e es)
  obtain k v where e: "e = (k, v)" by (cases e)
  have "set (foldl (\<lambda>m (k, v). Map_set m k v) (Map_set m k v) es) \<subseteq> set (Map_set m k v) \<union> set es"
    by (rule Cons.IH)
  also have "\<dots> \<subseteq> insert (k, v) (set m) \<union> set es"
    using Map_set_entries [of m k v] by auto
  finally show ?case by (auto simp: e)
qed

lemma new_Map_keys_distinct: "distinct (map fst (new_Map es))"
  using new_Map_fold_keys [of "[]" es] by (simp add: new_Map_def)

lemma new_Map_keys_set: "fst ` set (new_Map es) = fst ` set es"
  using new_Map_fold_keys [of "[]" es] by (simp add: new_Map_def)

lemma new_Map_entries: "set (new_Map es) \<subseteq> set es"
  using new_Map_fold_entries [of "[]" es] by (simp add: new_Map_def)

subsection \<open>Array.prototype.sort\<close>

lemma set_insert_by: "set (insert_by cmp x xs) = insert x (set xs)"
  by (induction xs) auto

lemma set_sort_by: "set (sort_by cmp xs) = set xs"
  unfolding sort_by_def by (induction xs) (auto simp: set_insert_by)

lemma distinct_map_insert_by:
  "distinct (map f (insert_by cmp x xs)) = (f x \<notin> f ` set xs \<and> distinct (map f xs))"
  by (induction xs) (auto simp: set_insert_by)

lemma distinct_map_sort_by: "distinct (map f (sort_by cmp xs)) = distinct (map f xs)"
  unfolding sort_by_def
  by (induction xs) (auto simp: distinct_map_insert_by set_sort_by [unfolded sort_by_def])

lemma sorted_insert_by:
  assumes total: "\<forall>a b. cmp a b \<le> 0 \<or> cmp b a \<le> 0"
    and trans: "\<forall>a b c. cmp a b \<le> 0 \<and> cmp b c \<le> 0 \<longrightarrow> cmp a c \<le> 0"
  shows "sorted_wrt (\<lambda>a b. cmp a b \<le> 0) xs \<Longrightarrow> sorted_wrt (\<lambda>a b. cmp a b \<le> (0::int)) (insert_by cmp x xs)"
proof (induction xs)
  case Nil
  then show ?case by simp
next
  case (Cons y ys)
  from Cons.prems have below: "\<forall>z \<in> set ys. cmp y z \<le> 0" and tail: "sorted_wrt (\<lambda>a b. cmp a b \<le> 0) ys"
    by simp_all
  show ?case
  proof (cases "cmp x y \<le> 0")
    case True
    have "\<forall>z \<in> set ys. cmp x z \<le> 0"
    proof
      fix z assume "z \<in> set ys"
      then have "cmp y z \<le> 0" using below by blast
      with True trans show "cmp x z \<le> 0" by blast
    qed
    with True below tail show ?thesis by simp
  next
    case False
    then have "cmp y x \<le> 0" using total by blast
    moreover have "sorted_wrt (\<lambda>a b. cmp a b \<le> 0) (insert_by cmp x ys)"
      using Cons.IH tail by blast
    ultimately show ?thesis
      using False below by (simp add: set_insert_by)
  qed
qed

lemma sorted_sort_by:
  assumes "\<forall>a b. cmp a b \<le> 0 \<or> cmp b a \<le> 0"
    and "\<forall>a b c. cmp a b \<le> 0 \<and> cmp b c \<le> 0 \<longrightarrow> cmp a c \<le> 0"
  shows "sorted_wrt (\<lambda>a b. cmp a b \<le> (0::int)) (sort_by cmp xs)"
proof (induction xs)
  case Nil
  show ?case by (simp add: sort_by_def)
next
  case (Cons x xs)
  have "sort_by cmp (x # xs) = insert_by cmp x (sort_by cmp xs)"
    by (simp add: sort_by_def)
  with sorted_insert_by [OF assms Cons.IH] show ?case by simp
qed

section \<open>The matching effect\<close>

subsection \<open>De-duplication and order\<close>

lemma uniq_names_distinct: "distinct (map name (uniq lc hs))"
proof -
  let ?m = "new_Map (map (\<lambda>h. (name h, h)) hs)"
  have "\<forall>e \<in> set ?m. fst e = name (snd e)"
    using new_Map_entries [of "map (\<lambda>h. (name h, h)) hs"] by auto
  then have "map name (Map_values ?m) = map fst ?m"
    by (simp add: Map_values_def)
  then have "distinct (map name (Map_values ?m))"
    by (simp add: new_Map_keys_distinct)
  then show ?thesis
    by (simp add: uniq_def distinct_map_sort_by)
qed

lemma uniq_subset: "set (uniq lc hs) \<subseteq> set hs"
proof -
  have "set (Map_values (new_Map (map (\<lambda>h. (name h, h)) hs))) \<subseteq> set hs"
    using new_Map_entries [of "map (\<lambda>h. (name h, h)) hs"] by (auto simp: Map_values_def)
  then show ?thesis by (simp add: uniq_def set_sort_by)
qed

lemma uniq_names_set: "name ` set (uniq lc hs) = name ` set hs"
proof -
  let ?m = "new_Map (map (\<lambda>h. (name h, h)) hs)"
  have "\<forall>e \<in> set ?m. fst e = name (snd e)"
    using new_Map_entries [of "map (\<lambda>h. (name h, h)) hs"] by auto
  then have "name ` snd ` set ?m = fst ` set ?m"
    by force
  also have "\<dots> = name ` set hs"
    by (simp add: new_Map_keys_set image_image)
  finally show ?thesis
    by (simp add: uniq_def set_sort_by Map_values_def)
qed

lemma uniq_sorted:
  assumes total: "\<forall>a b. lc a b \<le> 0 \<or> lc b a \<le> 0"
    and trans: "\<forall>a b c. lc a b \<le> 0 \<and> lc b c \<le> 0 \<longrightarrow> lc a c \<le> (0::int)"
  shows "sorted_wrt (\<lambda>a b. lc (name a) (name b) \<le> 0) (uniq lc hs)"
proof -
  let ?cmp = "\<lambda>a b. lc (name a) (name b)"
  have t: "\<forall>a b. ?cmp a b \<le> 0 \<or> ?cmp b a \<le> 0"
    using total by blast
  have tr: "\<forall>a b c. ?cmp a b \<le> 0 \<and> ?cmp b c \<le> 0 \<longrightarrow> ?cmp a c \<le> 0"
    using trans by blast
  show ?thesis
    unfolding uniq_def by (rule sorted_sort_by [OF t tr])
qed

subsection \<open>The loop over the candidates\<close>

lemma visit_skip_no_geometry: "geometry f = None \<Longrightarrow> visit T isoFeature isoBbox md st f = Inr st"
  by (simp add: visit_def)

lemma visit_skip_bbox:
  "bbox T f = Inr b \<Longrightarrow> \<not> bboxIntersects b isoBbox \<Longrightarrow> visit T isoFeature isoBbox md st f = Inr st"
  by (simp add: visit_def)

lemma visit_not_inside:
  "geometry f \<noteq> None \<Longrightarrow> bbox T f = Inr b \<Longrightarrow> bboxIntersects b isoBbox \<Longrightarrow> \<not> inside_test T f isoFeature \<Longrightarrow>
   visit T isoFeature isoBbox md st f = Inr (st\<lparr>tested := tested st @ [f]\<rparr>)"
  by (auto simp: visit_def)



lemma visit_hits:
  "visit T isoFeature isoBbox md st f = Inr st' \<Longrightarrow>
   hits st' = hits st
   \<or> hits st' = hits st @ [\<lparr>name = pickCommunityName (properties f),
                            hit_mode = replaceAll md (CHR ''_'') (CHR '' '')\<rparr>]"
  by (auto simp: visit_def split: if_splits sum.splits)

lemma visit_tested:
  "visit T isoFeature isoBbox md st f = Inr st' \<Longrightarrow>
   tested st' = tested st
   \<or> (tested st' = tested st @ [f] \<and> geometry f \<noteq> None \<and> (\<exists>b. bbox T f = Inr b \<and> bboxIntersects b isoBbox))"
  by (auto simp: visit_def split: if_splits sum.splits)


lemma scan_features_append:
  "scan_features T isoFeature isoBbox md (xs @ ys) st =
     (case scan_features T isoFeature isoBbox md xs st of
        Inl e \<Rightarrow> Inl e
      | Inr st' \<Rightarrow> scan_features T isoFeature isoBbox md ys st')"
proof (induction xs arbitrary: st)
  case Nil
  show ?case by simp
next
  case (Cons x xs)
  then show ?case by (cases x) (auto split: sum.splits)
qed



lemma scan_features_Cons_Inr:
  "scan_features T isoFeature isoBbox md (x # fs) st = Inr st' \<Longrightarrow>
   \<exists>f st1. x = Some f \<and> visit T isoFeature isoBbox md st f = Inr st1
     \<and> scan_features T isoFeature isoBbox md fs st1 = Inr st'"
  by (cases x) (auto split: sum.splits)

lemma scan_features_modes:
  "scan_features T isoFeature isoBbox md fs st = Inr st' \<Longrightarrow>
   \<forall>h \<in> set (hits st). hit_mode h = replaceAll md (CHR ''_'') (CHR '' '') \<Longrightarrow>
   \<forall>h \<in> set (hits st'). hit_mode h = replaceAll md (CHR ''_'') (CHR '' '')"
proof (induction fs arbitrary: st)
  case Nil
  then show ?case by simp
next
  case (Cons x fs)
  from scan_features_Cons_Inr [OF Cons.prems(1)]
  obtain f st1 where v: "visit T isoFeature isoBbox md st f = Inr st1"
    and r: "scan_features T isoFeature isoBbox md fs st1 = Inr st'"
    by blast
  have "\<forall>h \<in> set (hits st1). hit_mode h = replaceAll md (CHR ''_'') (CHR '' '')"
    using visit_hits [OF v] Cons.prems(2) by auto
  with Cons.IH [OF r] show ?case by blast
qed

lemma scan_features_tested:
  "scan_features T isoFeature isoBbox md fs st = Inr st' \<Longrightarrow>
   \<forall>f \<in> set (tested st'). f \<in> set (tested st) \<or> (\<exists>b. bbox T f = Inr b \<and> bboxIntersects b isoBbox)"
proof (induction fs arbitrary: st)
  case Nil
  then show ?case by simp
next
  case (Cons x fs)
  from scan_features_Cons_Inr [OF Cons.prems]
  obtain g st1 where v: "visit T isoFeature isoBbox md st g = Inr st1"
    and r: "scan_features T isoFeature isoBbox md fs st1 = Inr st'"
    by blast
  have "\<forall>f \<in> set (tested st1). f \<in> set (tested st) \<or> (\<exists>b. bbox T f = Inr b \<and> bboxIntersects b isoBbox)"
    using visit_tested [OF v] by auto
  with Cons.IH [OF r] show ?case by blast
qed

lemma features_or_empty_Items: "features comm = Items es \<Longrightarrow> features_or_empty comm = Some es"
  by (simp add: features_or_empty_def)

lemma features_or_empty_update [simp]: "features_or_empty (comm\<lparr>features := Items es\<rparr>) = Some es"
  by (simp add: features_or_empty_def)

lemma within_scan_run:
  assumes "combine T isoFC = Inr combined" and "first_feature combined = Some isoFeature"
    and "bbox T isoFeature = Inr isoBbox" and "features_or_empty comm = Some es"
  shows "within_scan T (Some isoFC) (Some comm) md =
     (case scan_features T isoFeature isoBbox md es \<lparr>hits = [], tested = []\<rparr> of
        Inl e \<Rightarrow> Inl e
      | Inr st \<Rightarrow> Inr (Some st))"
  using assms by (simp add: within_scan_def)

lemma within_areas_run:
  assumes "combine T isoFC = Inr combined" and "first_feature combined = Some isoFeature"
    and "bbox T isoFeature = Inr isoBbox" and "features_or_empty comm = Some es"
  shows "within_areas T lc (Some isoFC) (Some comm) md =
     (case scan_features T isoFeature isoBbox md es \<lparr>hits = [], tested = []\<rparr> of
        Inl e \<Rightarrow> Inl e
      | Inr st \<Rightarrow> Inr (uniq lc (hits st)))"
  by (simp add: within_areas_def within_scan_run [OF assms] split: sum.splits)

lemma hit_eqI: "name h = name h' \<Longrightarrow> hit_mode h = hit_mode h' \<Longrightarrow> h = (h' :: CommunityHit)"
  by simp

lemma first_seen:
  fixes hs :: "CommunityHit list"
  assumes "r \<in> set hs" and "\<forall>h \<in> set hs. hit_mode h = m"
  shows "find (\<lambda>h. name h = name r) hs = Some r"
proof (cases "find (\<lambda>h. name h = name r) hs")
  case None
  with assms(1) show ?thesis by (auto simp: find_None_iff)
next
  case (Some h)
  then have "h \<in> set hs" and "name h = name r"
    by (auto simp: find_Some_iff in_set_conv_nth)
  with assms have "h = r" using hit_eqI [of h r] by auto
  with Some show ?thesis by simp
qed

subsection \<open>The comparison used in the examples\<close>

lemma byte_compare_total: "\<forall>a b. byte_compare a b \<le> 0 \<or> byte_compare b a \<le> 0"
  by (auto simp: byte_compare_def)

lemma byte_compare_trans: "\<forall>a b c. byte_compare a b \<le> 0 \<and> byte_compare b c \<le> 0 \<longrightarrow> byte_compare a c \<le> 0"
  by (auto simp: byte_compare_def split: if_splits)

section \<open>The isochrone route\<close>

lemma travelTimeSeconds_bounds: "60 \<le> travelTimeSeconds m \<and> travelTimeSeconds m \<le> 10800"
  by (simp add: travelTimeSeconds_def)

lemma settle_calls: "calls (settle P now c key call resp) = [call]"
  by (simp add: settle_def Let_def split: option.splits)

lemma call_provider_calls: "calls (call_provider P E now c key body) = [make_outbound E body]"
  by (simp add: call_provider_def Let_def settle_calls split: fetch_outcome.splits)

lemma POST_calls:
  "call \<in> set (calls (POST P E now c req)) \<Longrightarrow>
     \<exists>raw body. req = Some raw \<and> asIsochroneRequest raw = Some body \<and> call = make_outbound E body"
  by (auto simp: POST_def handle_def Let_def call_provider_calls split: option.splits if_splits)

lemma settle_cases:
  "(cache_after (settle P now c key call resp) = c \<and> (\<exists>msg. response (settle P now c key call resp) = JsonError msg 502))
   \<or> (\<exists>g. response (settle P now c key call resp) = JsonOk g
          \<and> cache_after (settle P now c key call resp) = Map_set c key \<lparr>expiresAt = now + 600000, geojson = g\<rparr>)"
  by (simp add: settle_def Let_def split: option.splits)

lemma call_provider_cases:
  "(cache_after (call_provider P E now c key body) = c \<and> (\<exists>msg st. response (call_provider P E now c key body) = JsonError msg st))
   \<or> (\<exists>g. response (call_provider P E now c key body) = JsonOk g
          \<and> cache_after (call_provider P E now c key body) = Map_set c key \<lparr>expiresAt = now + 600000, geojson = g\<rparr>)"
proof (cases "fetch P (make_outbound E body)")
  case Rejected
  then show ?thesis by (simp add: call_provider_def)
next
  case (Resolved resp)
  then have eq: "call_provider P E now c key body = settle P now c key (make_outbound E body) resp"
    by (simp add: call_provider_def)
  show ?thesis
    unfolding eq using settle_cases [of P now c key "make_outbound E body" resp] by blast
qed

lemma settle_set_at:
  "response (settle P now c key call resp) = JsonOk g \<Longrightarrow>
   cache_set_at (settle P now c key call resp) = Some (now + elapsed P call)"
  by (auto simp: settle_def Let_def split: option.splits if_splits)

lemma call_provider_set_at:
  "response (call_provider P E now c key body) = JsonOk g \<Longrightarrow>
   cache_set_at (call_provider P E now c key body) = Some (now + elapsed P (make_outbound E body))"
  by (cases "fetch P (make_outbound E body)") (auto simp: call_provider_def settle_set_at)

lemma POST_valid:
  assumes "asIsochroneRequest raw = Some body"
    and "\<not> missing (TRAVELTIME_APP_ID E)" and "\<not> missing (TRAVELTIME_API_KEY E)"
  shows "POST P E now c (Some raw) =
     (case fresh_hit c (cacheKey P body) now of
        Some h \<Rightarrow> \<lparr>response = JsonOk (geojson h), cache_after = c, calls = [],
                   cache_set_at = None\<rparr>
      | None \<Rightarrow> call_provider P E now c (cacheKey P body) body)"
  using assms by (simp add: POST_def handle_def Let_def)

lemma POST_written:
  assumes "asIsochroneRequest raw = Some body"
    and "\<not> missing (TRAVELTIME_APP_ID E)" and "\<not> missing (TRAVELTIME_API_KEY E)"
  shows "calls (POST P E now c (Some raw)) \<noteq> [] \<and> response (POST P E now c (Some raw)) = JsonOk g \<Longrightarrow>
     Map_get (cache_after (POST P E now c (Some raw))) (cacheKey P body)
       = Some \<lparr>expiresAt = now + 10 * 60 * 1000, geojson = g\<rparr>
     \<and> cache_set_at (POST P E now c (Some raw)) = Some (now + elapsed P (make_outbound E body))"
proof -
  assume a: "calls (POST P E now c (Some raw)) \<noteq> [] \<and> response (POST P E now c (Some raw)) = JsonOk g"
  then have miss: "fresh_hit c (cacheKey P body) now = None"
    by (auto simp: POST_valid [OF assms] split: option.splits)
  then have eq: "POST P E now c (Some raw) = call_provider P E now c (cacheKey P body) body"
    by (simp add: POST_valid [OF assms])
  from a call_provider_cases [of P E now c "cacheKey P body" body]
  have "cache_after (call_provider P E now c (cacheKey P body) body)
          = Map_set c (cacheKey P body) \<lparr>expiresAt = now + 600000, geojson = g\<rparr>"
    unfolding eq by auto
  moreover from a have "cache_set_at (call_provider P E now c (cacheKey P body) body)
      = Some (now + elapsed P (make_outbound E body))"
    unfolding eq by (intro call_provider_set_at [of _ _ _ _ _ _ g]) simp
  ultimately show ?thesis
    by (simp add: eq Map_get_Map_set)
qed

lemma settle_set_at_success:
  "cache_set_at (settle P now c key call resp) = Some t \<Longrightarrow>
   \<exists>g. response (settle P now c key call resp) = JsonOk g"
  by (auto simp: settle_def Let_def split: option.splits if_splits)

lemma POST_set_at:
  assumes "asIsochroneRequest raw = Some body"
    and "\<not> missing (TRAVELTIME_APP_ID E)" and "\<not> missing (TRAVELTIME_API_KEY E)"
  shows "cache_set_at (POST P E now c (Some raw)) = Some t \<Longrightarrow>
     \<exists>g. calls (POST P E now c (Some raw)) \<noteq> [] \<and> response (POST P E now c (Some raw)) = JsonOk g"
proof -
  assume a: "cache_set_at (POST P E now c (Some raw)) = Some t"
  then have miss: "fresh_hit c (cacheKey P body) now = None"
    by (auto simp: POST_valid [OF assms] split: option.splits)
  then have eq: "POST P E now c (Some raw) = call_provider P E now c (cacheKey P body) body"
    by (simp add: POST_valid [OF assms])
  show ?thesis
  proof (cases "fetch P (make_outbound E body)")
    case Rejected
    with a show ?thesis by (simp add: eq call_provider_def)
  next
    case (Resolved resp)
    with a settle_set_at_success [of P now c "cacheKey P body" "make_outbound E body" resp t]
    show ?thesis by (simp add: eq call_provider_def settle_calls)
  qed
qed

lemma failed_fetch_not_cached:
  assumes "asIsochroneRequest raw = Some body"
    and "\<not> missing (TRAVELTIME_APP_ID E)" and "\<not> missing (TRAVELTIME_API_KEY E)"
    and "fresh_hit c (cacheKey P body) now = None"
    and "fetch P (make_outbound E body) = Resolved resp"
    and "\<not> ok resp \<or> (includes_str (contentType_of resp) ''json'' \<and> JSON_parse P (body_text resp) = None)"
  shows "(\<exists>msg. response (POST P E now c (Some raw)) = JsonError msg 502)
       \<and> cache_after (POST P E now c (Some raw)) = c
       \<and> calls (POST P E now c (Some raw)) = [make_outbound E body]"
  using assms(4-6)
  by (auto simp: POST_valid [OF assms(1-3)] call_provider_def settle_def Let_def)

lemma POST_cache_cases:
  "cache_after (POST P E now c req) = c
   \<or> (\<exists>raw body g. req = Some raw \<and> asIsochroneRequest raw = Some body
         \<and> fresh_hit c (cacheKey P body) now = None
         \<and> calls (POST P E now c req) = [make_outbound E body]
         \<and> response (POST P E now c req) = JsonOk g
         \<and> cache_after (POST P E now c req)
             = Map_set c (cacheKey P body) \<lparr>expiresAt = now + 600000, geojson = g\<rparr>)"
proof (cases req)
  case None
  then show ?thesis by (simp add: POST_def)
next
  case (Some raw)
  show ?thesis
  proof (cases "asIsochroneRequest raw")
    case None
    with Some show ?thesis by (simp add: POST_def)
  next
    case (Some body)
    show ?thesis
    proof (cases "missing (TRAVELTIME_APP_ID E) \<or> missing (TRAVELTIME_API_KEY E)")
      case True
      with Some \<open>req = Some raw\<close> show ?thesis by (auto simp: POST_def handle_def)
    next
      case False
      then have eq: "POST P E now c (Some raw) =
         (case fresh_hit c (cacheKey P body) now of
            Some h \<Rightarrow> \<lparr>response = JsonOk (geojson h), cache_after = c, calls = [],
                       cache_set_at = None\<rparr>
          | None \<Rightarrow> call_provider P E now c (cacheKey P body) body)"
        using POST_valid [OF Some] by simp
      show ?thesis
      proof (cases "fresh_hit c (cacheKey P body) now")
        case None
        with eq call_provider_cases [of P E now c "cacheKey P body" body] Some \<open>req = Some raw\<close>
        show ?thesis by (auto simp: call_provider_calls)
      next
        case (Some h)
        with eq \<open>req = Some raw\<close> show ?thesis by simp
      qed
    qed
  qed
qed



lemma toFixed5_cong:
  assumes "(x < 0) = (y < 0)" "nearest5 \<bar>x\<bar> = nearest5 \<bar>y\<bar>" "\<bar>x\<bar> < 10 ^ 21" "\<bar>y\<bar> < 10 ^ 21"
  shows "toFixed5 fs x = toFixed5 fs y"
  using assms by (simp add: toFixed5_def Let_def)


subsection \<open>Skipping a candidate\<close>

lemma scan_features_skip:
  assumes "\<forall>st. visit T isoFeature isoBbox md st f = Inr st"
  shows "scan_features T isoFeature isoBbox md (xs @ Some f # ys) st
       = scan_features T isoFeature isoBbox md (xs @ ys) st"
  using assms by (simp add: scan_features_append split: sum.splits)

lemma bboxIntersects_common_point:
  fixes x y :: "'n::linorder"
  assumes "b0 \<le> x" "x \<le> b2" "b1 \<le> y" "y \<le> b3" "i0 \<le> x" "x \<le> i2" "i1 \<le> y" "y \<le> i3"
  shows "bboxIntersects (b0, b1, b2, b3) (i0, i1, i2, i3)"
  using assms by auto

subsection \<open>Keys and misses\<close>

lemma Number_toString_200: "Number_toString fs 200 = ''200''"
  by (simp add: Number_toString_def) code_simp

lemma Number_toString_1000: "Number_toString fs 1000 = ''1000''"
  by (simp add: Number_toString_def) code_simp

lemma cacheKey_200_1000: "cacheKey P (body\<lparr>minutes := 200\<rparr>) \<noteq> cacheKey P (body\<lparr>minutes := 1000\<rparr>)"
  by (simp add: cacheKey_def Number_toString_200 Number_toString_1000)

lemma POST_miss_calls:
  assumes "asIsochroneRequest raw = Some body"
    and "\<not> missing (TRAVELTIME_APP_ID E)" and "\<not> missing (TRAVELTIME_API_KEY E)"
    and "Map_get c (cacheKey P body) = None"
  shows "calls (POST P E now c (Some raw)) = [make_outbound E body]"
  using assms(4) by (simp add: POST_valid [OF assms(1-3)] fresh_hit_def call_provider_calls)

lemma asIsochroneRequest_request_json: "asIsochroneRequest (request_json b) = Some b"
  by (simp add: asIsochroneRequest_def request_json_def)

lemma env_set_present:
  "\<not> missing (TRAVELTIME_APP_ID env_set)" "\<not> missing (TRAVELTIME_API_KEY env_set)"
  by (simp_all add: missing_def env_set_def)


section \<open>The claims\<close>

text \<open>
  C1. Whatever the effect hands to \<^verbatim>\<open>setWithin\<close> has one entry per resolved display
  name and is sorted by name under the comparison \<open>lc\<close> that \<^verbatim>\<open>localeCompare\<close> computes,
  provided \<open>lc\<close> is a consistent comparator (total and transitive). When the loop has
  collected the hits \<open>hits st\<close>, the names of the result are exactly the names of the hits,
  and the entry kept for a name equals the first hit collected under that name. (The
  \<^verbatim>\<open>Map\<close> keeps the position of the first hit and the value of the last; all hits of
  one run carry the same mode label, so hits of one name are equal.)
\<close>

theorem C1_one_entry_per_name_sorted:
  assumes total: "\<forall>a b. lc a b \<le> 0 \<or> lc b a \<le> 0"
    and trans: "\<forall>a b c. lc a b \<le> 0 \<and> lc b c \<le> 0 \<longrightarrow> lc a c \<le> (0::int)"
    and run: "within_areas T lc isochrone communities md = Inr res"
  shows "distinct (map name res)
       \<and> sorted_wrt (\<lambda>a b. lc (name a) (name b) \<le> 0) res
       \<and> (\<forall>st. within_scan T isochrone communities md = Inr (Some st) \<longrightarrow>
             name ` set res = name ` set (hits st)
             \<and> (\<forall>r \<in> set res. find (\<lambda>h. name h = name r) (hits st) = Some r))"
proof (cases "within_scan T isochrone communities md")
  case (Inl e)
  with run show ?thesis by (simp add: within_areas_def)
next
  case (Inr outcome)
  show ?thesis
  proof (cases outcome)
    case None
    with Inr run have "res = []" by (simp add: within_areas_def)
    with Inr None show ?thesis by simp
  next
    case (Some st)
    with Inr run have res: "res = uniq lc (hits st)" by (auto simp: within_areas_def)
    from Inr Some obtain isoFeature isoBbox fs where
      "scan_features T isoFeature isoBbox md fs \<lparr>hits = [], tested = []\<rparr> = Inr st"
      by (auto simp: within_scan_def split: option.splits sum.splits)
    then have modes: "\<forall>h \<in> set (hits st). hit_mode h = replaceAll md (CHR ''_'') (CHR '' '')"
      using scan_features_modes by fastforce
    have "\<forall>r \<in> set res. find (\<lambda>h. name h = name r) (hits st) = Some r"
    proof
      fix r assume "r \<in> set res"
      then have "r \<in> set (hits st)" using uniq_subset [of lc "hits st"] res by blast
      then show "find (\<lambda>h. name h = name r) (hits st) = Some r"
        using modes by (rule first_seen)
    qed
    then show ?thesis
      using Inr Some res uniq_names_distinct [of lc "hits st"] uniq_names_set [of lc "hits st"]
        uniq_sorted [OF total trans, of "hits st"]
      by simp
  qed
qed

text \<open>The run over the six example areas: the two areas named Bedford give one entry, and
  Armdale comes first.\<close>

theorem C1_one_entry_per_name_sorted_witness:
  "within_areas box_turf byte_compare (Some catchment) (Some halifax_areas) ''public_transport''
     = Inr [\<lparr>name = ''Armdale'', hit_mode = ''public transport''\<rparr>,
            \<lparr>name = ''Bedford'', hit_mode = ''public transport''\<rparr>]
   \<and> within_scan box_turf (Some catchment) (Some halifax_areas) ''public_transport''
     = Inr (Some \<lparr>hits = [\<lparr>name = ''Bedford'', hit_mode = ''public transport''\<rparr>,
                          \<lparr>name = ''Armdale'', hit_mode = ''public transport''\<rparr>,
                          \<lparr>name = ''Bedford'', hit_mode = ''public transport''\<rparr>],
                  tested = [area ''GSA_NAME'' ''Bedford'' (Box 1 1 3 3),
                            area ''NAME'' ''Armdale'' (Box 4 4 6 6),
                            area ''NAME'' '' Bedford '' (Box 7 7 9 9),
                            area ''NAME'' ''Timberlea'' (Box 10 0 12 2),
                            area ''NAME'' ''Fairview'' (Sliver 2 2 3 3)]\<rparr>)
   \<and> distinct (map name [\<lparr>name = ''Armdale'', hit_mode = ''public transport''\<rparr>,
                          \<lparr>name = ''Bedford'', hit_mode = ''public transport''\<rparr>])
   \<and> sorted_wrt (\<lambda>a b. byte_compare (name a) (name b) \<le> 0)
        [\<lparr>name = ''Armdale'', hit_mode = ''public transport''\<rparr>,
         \<lparr>name = ''Bedford'', hit_mode = ''public transport''\<rparr>]"
proof -
  have run: "within_areas box_turf byte_compare (Some catchment) (Some halifax_areas) ''public_transport''
     = Inr [\<lparr>name = ''Armdale'', hit_mode = ''public transport''\<rparr>,
            \<lparr>name = ''Bedford'', hit_mode = ''public transport''\<rparr>]"
    by code_simp
  have scan: "within_scan box_turf (Some catchment) (Some halifax_areas) ''public_transport''
     = Inr (Some \<lparr>hits = [\<lparr>name = ''Bedford'', hit_mode = ''public transport''\<rparr>,
                          \<lparr>name = ''Armdale'', hit_mode = ''public transport''\<rparr>,
                          \<lparr>name = ''Bedford'', hit_mode = ''public transport''\<rparr>],
                  tested = [area ''GSA_NAME'' ''Bedford'' (Box 1 1 3 3),
                            area ''NAME'' ''Armdale'' (Box 4 4 6 6),
                            area ''NAME'' '' Bedford '' (Box 7 7 9 9),
                            area ''NAME'' ''Timberlea'' (Box 10 0 12 2),
                            area ''NAME'' ''Fairview'' (Sliver 2 2 3 3)]\<rparr>)"
    by code_simp
  note law = C1_one_entry_per_name_sorted [OF byte_compare_total byte_compare_trans run]
  show ?thesis
    by (intro conjI) (rule run, rule scan, rule law [THEN conjunct1],
        rule law [THEN conjunct2, THEN conjunct1])
qed

text \<open>
  C2, as stated, fails. With a candidate collection that is present but empty the effect does
  not return at once: it combines the catchment and computes its bounding box first, both
  outside any \<^verbatim>\<open>try\<close>, and what they throw leaves the effect. Here the catchment is a
  polygon without coordinates.
\<close>

theorem C2_counterexample:
  "features_or_empty \<lparr>features = Items ([] :: geom feature option list)\<rparr> = Some []
   \<and> within_areas box_turf byte_compare
        (Some \<lparr>features = Items [Some \<lparr>geometry = Some NoCoordinates, properties = JNull\<rparr>]\<rparr>)
        (Some \<lparr>features = Items []\<rparr>) ''public_transport''
      = Inl (Thrown ''TypeError'')"
  by code_simp

text \<open>
  C2, amended. A \<^verbatim>\<open>null\<close> catchment or a \<^verbatim>\<open>null\<close> candidate collection gives the empty
  list before any library call (it holds for every \<open>T\<close>, also one that always throws). A
  catchment whose combination has no first feature gives the empty list once
  \<^verbatim>\<open>turf.combine\<close> has returned. A candidate collection without features gives the empty
  list once \<^verbatim>\<open>turf.combine\<close> and \<^verbatim>\<open>turf.bbox\<close> of the catchment have returned.
\<close>

theorem C2_empty_inputs:
  fixes T :: "('g, 'p, 'n::linorder) turf"
  shows "within_areas T lc None communities md = Inr []
   \<and> within_areas T lc isochrone None md = Inr []
   \<and> (\<forall>isoFC comm combined.
         combine T isoFC = Inr combined \<and> first_feature combined = None \<longrightarrow>
         within_areas T lc (Some isoFC) (Some comm) md = Inr [])
   \<and> (\<forall>isoFC comm combined isoFeature isoBbox.
         features_or_empty comm = Some [] \<and> combine T isoFC = Inr combined
         \<and> first_feature combined = Some isoFeature \<and> bbox T isoFeature = Inr isoBbox \<longrightarrow>
         within_areas T lc (Some isoFC) (Some comm) md = Inr [])"
proof (intro conjI allI impI)
  show "within_areas T lc None communities md = Inr []"
    by (simp add: within_areas_def within_scan_def)
  show "within_areas T lc isochrone None md = Inr []"
    by (simp add: within_areas_def within_scan_def split: option.splits)
next
  fix isoFC and comm :: "'g feature_collection" and combined
  assume "combine T isoFC = Inr combined \<and> first_feature combined = None"
  then show "within_areas T lc (Some isoFC) (Some comm) md = Inr []"
    by (simp add: within_areas_def within_scan_def)
next
  fix isoFC and comm :: "'g feature_collection" and combined isoFeature isoBbox
  assume a: "features_or_empty comm = Some [] \<and> combine T isoFC = Inr combined
         \<and> first_feature combined = Some isoFeature \<and> bbox T isoFeature = Inr isoBbox"
  then have "within_areas T lc (Some isoFC) (Some comm) md = Inr (uniq lc [])"
    by (simp add: within_areas_run [of T isoFC combined isoFeature isoBbox comm "[]"])
  then show "within_areas T lc (Some isoFC) (Some comm) md = Inr []"
    by (simp add: uniq_def new_Map_def Map_values_def sort_by_def)
qed

text \<open>
  The four cases on concrete inputs: the first two with the library that always throws.
\<close>

theorem C2_empty_inputs_witness:
  "within_areas failing_turf byte_compare None (Some halifax_areas) ''public_transport'' = Inr []
   \<and> within_areas failing_turf byte_compare (Some catchment) None ''public_transport'' = Inr []
   \<and> within_areas box_turf byte_compare (Some \<lparr>features = Items []\<rparr>) (Some halifax_areas) ''public_transport'' = Inr []
   \<and> within_areas box_turf byte_compare (Some catchment) (Some \<lparr>features = Items []\<rparr>) ''public_transport'' = Inr []"
proof -
  note law = C2_empty_inputs [of failing_turf byte_compare "Some halifax_areas" "''public_transport''" "Some catchment"]
  note law' = C2_empty_inputs [of box_turf byte_compare None "''public_transport''" None]
  have c: "combine box_turf \<lparr>features = Items []\<rparr> = Inr \<lparr>features = Items []\<rparr>
            \<and> first_feature \<lparr>features = Items ([] :: geom feature option list)\<rparr> = None"
    by code_simp
  have d: "features_or_empty \<lparr>features = Items ([] :: geom feature option list)\<rparr> = Some []
           \<and> combine box_turf catchment = Inr catchment
           \<and> first_feature catchment = Some \<lparr>geometry = Some (Box 0 0 10 10), properties = JNull\<rparr>
           \<and> bbox box_turf \<lparr>geometry = Some (Box 0 0 10 10), properties = JNull\<rparr> = Inr (0, 0, 10, 10)"
    by code_simp
  show ?thesis
    by (intro conjI)
      (rule law [THEN conjunct1],
       rule law [THEN conjunct2, THEN conjunct1],
       rule law' [THEN conjunct2, THEN conjunct2, THEN conjunct1, THEN spec, THEN spec, THEN spec, THEN mp, OF c],
       rule law' [THEN conjunct2, THEN conjunct2, THEN conjunct2, THEN spec, THEN spec, THEN spec, THEN spec, THEN spec, THEN mp, OF d])
qed

text \<open>
  C3. A candidate \<open>f\<close> whose bounding box does not overlap the catchment's is excluded: the
  result is the one obtained without \<open>f\<close>, and \<open>f\<close> is not among the candidates for which
  the centroid test was entered. The overlap test accepts every pair of boxes that share a
  point, edges included, and rejects exactly when one box lies entirely to one side of the
  other on an axis. The catchment is one that \<^verbatim>\<open>turf.combine\<close> and \<^verbatim>\<open>turf.bbox\<close>
  have worked on.
\<close>

theorem C3_bbox_prefilter:
  fixes T :: "('g, 'p, 'n::linorder) turf"
  assumes "combine T isoFC = Inr combined" and "first_feature combined = Some isoFeature"
    and "bbox T isoFeature = Inr isoBbox"
    and "features comm = Items (xs @ Some f # ys)"
    and "geometry f \<noteq> None" and "bbox T f = Inr b" and "\<not> bboxIntersects b isoBbox"
  shows "within_areas T lc (Some isoFC) (Some comm) md
           = within_areas T lc (Some isoFC) (Some (comm\<lparr>features := Items (xs @ ys)\<rparr>)) md
       \<and> (\<forall>st. within_scan T (Some isoFC) (Some comm) md = Inr (Some st) \<longrightarrow> f \<notin> set (tested st))
       \<and> (\<forall>b0 b1 b2 b3 i0 i1 i2 i3 x y :: 'n.
             b0 \<le> x \<and> x \<le> b2 \<and> b1 \<le> y \<and> y \<le> b3 \<and> i0 \<le> x \<and> x \<le> i2 \<and> i1 \<le> y \<and> y \<le> i3 \<longrightarrow>
             bboxIntersects (b0, b1, b2, b3) (i0, i1, i2, i3))
       \<and> (\<forall>b0 b1 b2 b3 i0 i1 i2 i3 :: 'n.
             bboxIntersects (b0, b1, b2, b3) (i0, i1, i2, i3)
               = (\<not> (b2 < i0 \<or> i2 < b0 \<or> b3 < i1 \<or> i3 < b1)))"
proof (intro conjI allI impI)
  have skip: "\<forall>st. visit T isoFeature isoBbox md st f = Inr st"
    using assms(6,7) by (simp add: visit_skip_bbox)
  have fe: "features_or_empty comm = Some (xs @ Some f # ys)"
    using assms(4) by (rule features_or_empty_Items)
  show "within_areas T lc (Some isoFC) (Some comm) md
           = within_areas T lc (Some isoFC) (Some (comm\<lparr>features := Items (xs @ ys)\<rparr>)) md"
    by (simp add: within_areas_run [OF assms(1-3) fe]
        within_areas_run [OF assms(1-3) features_or_empty_update] scan_features_skip [OF skip])
next
  have fe: "features_or_empty comm = Some (xs @ Some f # ys)"
    using assms(4) by (rule features_or_empty_Items)
  fix st assume "within_scan T (Some isoFC) (Some comm) md = Inr (Some st)"
  then have "scan_features T isoFeature isoBbox md (xs @ Some f # ys) \<lparr>hits = [], tested = []\<rparr> = Inr st"
    by (simp add: within_scan_run [OF assms(1-3) fe] split: sum.splits)
  from scan_features_tested [OF this] assms(6,7) show "f \<notin> set (tested st)"
    by auto
next
  fix b0 b1 b2 b3 i0 i1 i2 i3 x y :: 'n
  assume "b0 \<le> x \<and> x \<le> b2 \<and> b1 \<le> y \<and> y \<le> b3 \<and> i0 \<le> x \<and> x \<le> i2 \<and> i1 \<le> y \<and> y \<le> i3"
  then show "bboxIntersects (b0, b1, b2, b3) (i0, i1, i2, i3)"
    by (intro bboxIntersects_common_point [of b0 x b2 b1 y b3 i0 i2 i1 i3]) simp_all
next
  fix b0 b1 b2 b3 i0 i1 i2 i3 :: 'n
  show "bboxIntersects (b0, b1, b2, b3) (i0, i1, i2, i3)
               = (\<not> (b2 < i0 \<or> i2 < b0 \<or> b3 < i1 \<or> i3 < b1))"
    by auto
qed

text \<open>
  Among the six example areas Sambro lies far from the catchment and is never tested;
  Timberlea touches the catchment box on an edge and passes the prefilter.
\<close>

theorem C3_bbox_prefilter_witness:
  "within_areas box_turf byte_compare (Some catchment) (Some halifax_areas) ''public_transport''
     = within_areas box_turf byte_compare (Some catchment)
         (Some (halifax_areas\<lparr>features := Items
            ([Some (area ''GSA_NAME'' ''Bedford'' (Box 1 1 3 3)),
              Some (area ''NAME'' ''Armdale'' (Box 4 4 6 6)),
              Some (area ''NAME'' '' Bedford '' (Box 7 7 9 9))]
             @ [Some (area ''NAME'' ''Timberlea'' (Box 10 0 12 2)),
                Some (area ''NAME'' ''Fairview'' (Sliver 2 2 3 3))])\<rparr>))
         ''public_transport''
   \<and> area ''NAME'' ''Sambro'' (Box 20 20 30 30)
       \<notin> set (tested \<lparr>hits = [\<lparr>name = ''Bedford'', hit_mode = ''public transport''\<rparr>,
                               \<lparr>name = ''Armdale'', hit_mode = ''public transport''\<rparr>,
                               \<lparr>name = ''Bedford'', hit_mode = ''public transport''\<rparr>],
                       tested = [area ''GSA_NAME'' ''Bedford'' (Box 1 1 3 3),
                                 area ''NAME'' ''Armdale'' (Box 4 4 6 6),
                                 area ''NAME'' '' Bedford '' (Box 7 7 9 9),
                                 area ''NAME'' ''Timberlea'' (Box 10 0 12 2),
                                 area ''NAME'' ''Fairview'' (Sliver 2 2 3 3)]\<rparr>)
   \<and> bboxIntersects (10, 0, 12, 2) (0, 0, 10, 10 :: rat)"
proof -
  have h1: "combine box_turf catchment = Inr catchment"
    by code_simp
  have h2: "first_feature catchment = Some \<lparr>geometry = Some (Box 0 0 10 10), properties = JNull\<rparr>"
    by code_simp
  have h3: "bbox box_turf \<lparr>geometry = Some (Box 0 0 10 10), properties = JNull\<rparr> = Inr (0, 0, 10, 10)"
    by code_simp
  have h4: "features halifax_areas = Items
      ([Some (area ''GSA_NAME'' ''Bedford'' (Box 1 1 3 3)),
        Some (area ''NAME'' ''Armdale'' (Box 4 4 6 6)),
        Some (area ''NAME'' '' Bedford '' (Box 7 7 9 9))]
       @ Some (area ''NAME'' ''Sambro'' (Box 20 20 30 30))
       # [Some (area ''NAME'' ''Timberlea'' (Box 10 0 12 2)),
          Some (area ''NAME'' ''Fairview'' (Sliver 2 2 3 3))])"
    by (simp add: halifax_areas_def)
  have h5: "geometry (area ''NAME'' ''Sambro'' (Box 20 20 30 30)) \<noteq> None"
    by (simp add: area_def)
  have h6: "bbox box_turf (area ''NAME'' ''Sambro'' (Box 20 20 30 30)) = Inr (20, 20, 30, 30)"
    by code_simp
  have h7: "\<not> bboxIntersects (20, 20, 30, 30) (0, 0, 10, 10 :: rat)"
    by simp
  have scan: "within_scan box_turf (Some catchment) (Some halifax_areas) ''public_transport''
     = Inr (Some \<lparr>hits = [\<lparr>name = ''Bedford'', hit_mode = ''public transport''\<rparr>,
                          \<lparr>name = ''Armdale'', hit_mode = ''public transport''\<rparr>,
                          \<lparr>name = ''Bedford'', hit_mode = ''public transport''\<rparr>],
                  tested = [area ''GSA_NAME'' ''Bedford'' (Box 1 1 3 3),
                            area ''NAME'' ''Armdale'' (Box 4 4 6 6),
                            area ''NAME'' '' Bedford '' (Box 7 7 9 9),
                            area ''NAME'' ''Timberlea'' (Box 10 0 12 2),
                            area ''NAME'' ''Fairview'' (Sliver 2 2 3 3)]\<rparr>)"
    by code_simp
  have pt: "(10::rat) \<le> 10 \<and> (10::rat) \<le> 12 \<and> (0::rat) \<le> 1 \<and> (1::rat) \<le> 2
            \<and> (0::rat) \<le> 10 \<and> (10::rat) \<le> 10 \<and> (0::rat) \<le> 1 \<and> (1::rat) \<le> 10"
    by simp
  note law = C3_bbox_prefilter [OF h1 h2 h3 h4 h5 h6 h7, of byte_compare "''public_transport''"]
  show ?thesis
    by (intro conjI)
      (rule law [THEN conjunct1],
       rule law [THEN conjunct2, THEN conjunct1, THEN spec, THEN mp, OF scan],
       rule law [THEN conjunct2, THEN conjunct2, THEN conjunct1, THEN spec, THEN spec, THEN spec,
                 THEN spec, THEN spec, THEN spec, THEN spec, THEN spec, THEN spec, THEN spec,
                 THEN mp, OF pt])
qed




text \<open>
  C5. Every outbound call the handler issues carries a travel time between 60 and 10800
  seconds: it is the double product of the request's minutes and 60, rounded to an integer,
  then clamped. 1000 minutes give 10800 seconds and 0 minutes give 60.
\<close>

theorem C5_travel_time_clamped:
  "(\<forall>call \<in> set (calls (POST P E now c req)).
       60 \<le> travel_time (request_body call) \<and> travel_time (request_body call) \<le> 10800)
   \<and> (\<forall>raw body. req = Some raw \<and> asIsochroneRequest raw = Some body \<longrightarrow>
         (\<forall>call \<in> set (calls (POST P E now c req)).
            travel_time (request_body call)
              = max 60 (min (Math_round (times_double (minutes body) 60)) 10800)))
   \<and> travelTimeSeconds 1000 = 10800
   \<and> travelTimeSeconds 0 = 60"
proof (intro conjI ballI allI impI)
  fix call assume "call \<in> set (calls (POST P E now c req))"
  then obtain raw body where "call = make_outbound E body"
    using POST_calls by blast
  then show "60 \<le> travel_time (request_body call)" "travel_time (request_body call) \<le> 10800"
    using travelTimeSeconds_bounds [of "minutes body"]
    by (simp_all add: make_outbound_def make_payload_def)
next
  fix raw body call
  assume "req = Some raw \<and> asIsochroneRequest raw = Some body"
    and "call \<in> set (calls (POST P E now c req))"
  then have "call = make_outbound E body"
    using POST_calls [of call P E now c req] by auto
  then show "travel_time (request_body call)
              = max 60 (min (Math_round (times_double (minutes body) 60)) 10800)"
    by (simp add: make_outbound_def make_payload_def travelTimeSeconds_def)
next
  show "travelTimeSeconds 1000 = 10800" by code_simp
  show "travelTimeSeconds 0 = 60" by code_simp
qed

text \<open>
  A request for 1000 minutes against an empty cache issues one call, with 10800 seconds.
\<close>

theorem C5_travel_time_clamped_witness:
  "calls (POST provider_up env_set 0 [] (Some (request_json (halifax\<lparr>minutes := 1000\<rparr>))))
     = [make_outbound env_set (halifax\<lparr>minutes := 1000\<rparr>)]
   \<and> 60 \<le> travel_time (request_body (make_outbound env_set (halifax\<lparr>minutes := 1000\<rparr>)))
   \<and> travel_time (request_body (make_outbound env_set (halifax\<lparr>minutes := 1000\<rparr>))) \<le> 10800
   \<and> travelTimeSeconds 1000 = 10800
   \<and> travelTimeSeconds 0 = 60"
proof -
  have run: "calls (POST provider_up env_set 0 [] (Some (request_json (halifax\<lparr>minutes := 1000\<rparr>))))
     = [make_outbound env_set (halifax\<lparr>minutes := 1000\<rparr>)]"
    by code_simp
  then have mem: "make_outbound env_set (halifax\<lparr>minutes := 1000\<rparr>)
      \<in> set (calls (POST provider_up env_set 0 [] (Some (request_json (halifax\<lparr>minutes := 1000\<rparr>)))))"
    by simp
  note law = C5_travel_time_clamped [of provider_up env_set 0 "[]" "Some (request_json (halifax\<lparr>minutes := 1000\<rparr>))"]
  note bounds = law [THEN conjunct1, THEN bspec, OF mem]
  show ?thesis
    by (intro conjI)
      (rule run, rule bounds [THEN conjunct1], rule bounds [THEN conjunct2],
       rule law [THEN conjunct2, THEN conjunct2, THEN conjunct1],
       rule law [THEN conjunct2, THEN conjunct2, THEN conjunct2])
qed

text \<open>
  C6, as stated, fails: \<^verbatim>\<open>toFixed(5)\<close> rounds, so two latitudes with the same first
  five decimals, less than \<open>10^-5\<close> apart, can lie on either side of a rounding boundary.
  Both latitudes here are binary fractions, hence exact doubles.
\<close>

theorem C6_counterexample:
  "\<lfloor>lat (halifax\<lparr>lat := 44.5 + 1 / 262144\<rparr>) * 100000\<rfloor> = \<lfloor>lat (halifax\<lparr>lat := 44.5 + 1 / 131072\<rparr>) * 100000\<rfloor>
   \<and> \<bar>lat (halifax\<lparr>lat := 44.5 + 1 / 262144\<rparr>) - lat (halifax\<lparr>lat := 44.5 + 1 / 131072\<rparr>)\<bar> < 1 / 100000
   \<and> lng (halifax\<lparr>lat := 44.5 + 1 / 262144\<rparr>) = lng (halifax\<lparr>lat := 44.5 + 1 / 131072\<rparr>)
   \<and> arriveByISO (halifax\<lparr>lat := 44.5 + 1 / 262144\<rparr>) = arriveByISO (halifax\<lparr>lat := 44.5 + 1 / 131072\<rparr>)
   \<and> minutes (halifax\<lparr>lat := 44.5 + 1 / 262144\<rparr>) = minutes (halifax\<lparr>lat := 44.5 + 1 / 131072\<rparr>)
   \<and> mode (halifax\<lparr>lat := 44.5 + 1 / 262144\<rparr>) = mode (halifax\<lparr>lat := 44.5 + 1 / 131072\<rparr>)
   \<and> cacheKey provider_up (halifax\<lparr>lat := 44.5 + 1 / 262144\<rparr>)
       = ''44.50000,-63.58270|2026-11-03T08:30:00-04:00|30|public_transport''
   \<and> cacheKey provider_up (halifax\<lparr>lat := 44.5 + 1 / 131072\<rparr>)
       = ''44.50001,-63.58270|2026-11-03T08:30:00-04:00|30|public_transport''
   \<and> cacheKey provider_up (halifax\<lparr>lat := 44.5 + 1 / 262144\<rparr>)
       \<noteq> cacheKey provider_up (halifax\<lparr>lat := 44.5 + 1 / 131072\<rparr>)"
  by code_simp

text \<open>
  C6, amended. Two requests that agree on arrival time, minutes and mode have the same key
  whenever their latitudes, and their longitudes, have the same sign and the same nearest
  multiple of \<open>10^-5\<close> (a tie going away from zero), magnitudes staying below \<open>10^21\<close>.
\<close>

theorem C6_same_rounding_same_key:
  assumes "(lat a < 0) = (lat b < 0)" and "nearest5 \<bar>lat a\<bar> = nearest5 \<bar>lat b\<bar>"
    and "(lng a < 0) = (lng b < 0)" and "nearest5 \<bar>lng a\<bar> = nearest5 \<bar>lng b\<bar>"
    and "\<bar>lat a\<bar> < 10 ^ 21" and "\<bar>lat b\<bar> < 10 ^ 21" and "\<bar>lng a\<bar> < 10 ^ 21" and "\<bar>lng b\<bar> < 10 ^ 21"
    and "arriveByISO a = arriveByISO b" and "minutes a = minutes b" and "mode a = mode b"
  shows "cacheKey P a = cacheKey P b"
proof -
  have "toFixed5 (float_toString P) (lat a) = toFixed5 (float_toString P) (lat b)"
    using assms by (intro toFixed5_cong) auto
  moreover have "toFixed5 (float_toString P) (lng a) = toFixed5 (float_toString P) (lng b)"
    using assms by (intro toFixed5_cong) auto
  ultimately show ?thesis
    using assms by (simp add: cacheKey_def)
qed

text \<open>Two latitudes in the same rounding cell.\<close>

theorem C6_same_rounding_same_key_witness:
  "cacheKey provider_up (halifax\<lparr>lat := 44.5 + 1 / 262144\<rparr>) = cacheKey provider_up (halifax\<lparr>lat := 44.5 + 1 / 1048576\<rparr>)
   \<and> lat (halifax\<lparr>lat := 44.5 + 1 / 262144\<rparr>) \<noteq> lat (halifax\<lparr>lat := 44.5 + 1 / 1048576\<rparr>)"
proof -
  have "nearest5 \<bar>lat (halifax\<lparr>lat := 44.5 + 1 / 262144\<rparr>)\<bar> = nearest5 \<bar>lat (halifax\<lparr>lat := 44.5 + 1 / 1048576\<rparr>)\<bar>"
    by code_simp
  then show ?thesis
    using C6_same_rounding_same_key [of "halifax\<lparr>lat := 44.5 + 1 / 262144\<rparr>" "halifax\<lparr>lat := 44.5 + 1 / 1048576\<rparr>" provider_up]
    by (simp add: halifax_def)
qed

text \<open>
  C7, as stated, fails in its last part: the expiry is computed from the clock reading of
  line 43, taken before the outbound call, and the entry is created by the \<^verbatim>\<open>cache.set\<close>
  of line 109, after the call. With a call that takes four seconds a request arriving at
  1000 creates its entry at 5000, and the entry expires at 601000, not at 605000.
\<close>

theorem C7_counterexample:
  "cache_set_at (POST provider_up env_set 1000 [] (Some (request_json halifax))) = Some 5000
   \<and> Map_get (cache_after (POST provider_up env_set 1000 [] (Some (request_json halifax))))
        ''44.65110,-63.58270|2026-11-03T08:30:00-04:00|30|public_transport''
       = Some \<lparr>expiresAt = 601000, geojson = JArray []\<rparr>
   \<and> (601000 :: int) \<noteq> 5000 + 10 * 60 * 1000"
  by code_simp

text \<open>
  C7, amended. For a valid request with both credentials set: an entry under the key that
  expires strictly after \<open>now\<close> is answered from the cache, with no outbound call and the
  cache untouched; an entry that expires at \<open>now\<close> or earlier leads to an outbound call; and
  when a call succeeds, the entry then found under the key expires at
  \<open>now + 10 * 60 * 1000\<close>, \<open>now\<close> being the clock reading taken at the lookup, while the entry
  is created when the call has returned: its expiry is its creation time plus ten minutes
  minus the time the call took.
\<close>

theorem C7_cache_ttl:
  assumes "asIsochroneRequest raw = Some body"
    and "\<not> missing (TRAVELTIME_APP_ID E)" and "\<not> missing (TRAVELTIME_API_KEY E)"
  shows "(\<forall>e. Map_get c (cacheKey P body) = Some e \<and> now < expiresAt e \<longrightarrow>
            POST P E now c (Some raw)
              = \<lparr>response = JsonOk (geojson e), cache_after = c, calls = [], cache_set_at = None\<rparr>)
       \<and> (\<forall>e. Map_get c (cacheKey P body) = Some e \<and> expiresAt e \<le> now \<longrightarrow>
            calls (POST P E now c (Some raw)) = [make_outbound E body])
       \<and> (\<forall>g. calls (POST P E now c (Some raw)) \<noteq> [] \<and> response (POST P E now c (Some raw)) = JsonOk g \<longrightarrow>
            Map_get (cache_after (POST P E now c (Some raw))) (cacheKey P body)
              = Some \<lparr>expiresAt = now + 10 * 60 * 1000, geojson = g\<rparr>
            \<and> cache_set_at (POST P E now c (Some raw)) = Some (now + elapsed P (make_outbound E body)))
       \<and> (\<forall>t e. cache_set_at (POST P E now c (Some raw)) = Some t
                \<and> Map_get (cache_after (POST P E now c (Some raw))) (cacheKey P body) = Some e \<longrightarrow>
            expiresAt e = t + 10 * 60 * 1000 - elapsed P (make_outbound E body))"
proof (intro conjI allI impI)
  fix e assume "Map_get c (cacheKey P body) = Some e \<and> now < expiresAt e"
  then show "POST P E now c (Some raw)
      = \<lparr>response = JsonOk (geojson e), cache_after = c, calls = [], cache_set_at = None\<rparr>"
    by (simp add: POST_valid [OF assms] fresh_hit_def)
next
  fix e assume "Map_get c (cacheKey P body) = Some e \<and> expiresAt e \<le> now"
  then show "calls (POST P E now c (Some raw)) = [make_outbound E body]"
    by (simp add: POST_valid [OF assms] fresh_hit_def call_provider_calls)
next
  fix g
  assume a: "calls (POST P E now c (Some raw)) \<noteq> [] \<and> response (POST P E now c (Some raw)) = JsonOk g"
  from POST_written [OF assms, of P now c g] a
  show "Map_get (cache_after (POST P E now c (Some raw))) (cacheKey P body)
              = Some \<lparr>expiresAt = now + 10 * 60 * 1000, geojson = g\<rparr>"
    and "cache_set_at (POST P E now c (Some raw)) = Some (now + elapsed P (make_outbound E body))"
    by simp_all
next
  fix t e
  assume a: "cache_set_at (POST P E now c (Some raw)) = Some t
           \<and> Map_get (cache_after (POST P E now c (Some raw))) (cacheKey P body) = Some e"
  then obtain g where "calls (POST P E now c (Some raw)) \<noteq> []"
    and "response (POST P E now c (Some raw)) = JsonOk g"
    using POST_set_at [OF assms, of P now c t] by blast
  with POST_written [OF assms, of P now c g] a
  show "expiresAt e = t + 10 * 60 * 1000 - elapsed P (make_outbound E body)"
    by auto
qed

text \<open>
  The entry of the warm cache expires at 600000: at 599999 it is served, at 600000 it is a
  miss, and the entry written then, at 604000, expires at 1200000.
\<close>

theorem C7_cache_ttl_witness:
  "POST provider_down env_set 599999 warm_cache (Some (request_json halifax))
     = \<lparr>response = JsonOk (geojson \<lparr>expiresAt = 600000, geojson = JArray []\<rparr>),
        cache_after = warm_cache, calls = [], cache_set_at = None\<rparr>
   \<and> calls (POST provider_down env_set 600000 warm_cache (Some (request_json halifax)))
     = [make_outbound env_set halifax]
   \<and> Map_get (cache_after (POST provider_up env_set 600000 warm_cache (Some (request_json halifax))))
        (cacheKey provider_up halifax)
     = Some \<lparr>expiresAt = 600000 + 10 * 60 * 1000, geojson = JArray []\<rparr>
   \<and> cache_set_at (POST provider_up env_set 600000 warm_cache (Some (request_json halifax)))
     = Some (600000 + elapsed provider_up (make_outbound env_set halifax))
   \<and> expiresAt \<lparr>expiresAt = 1200000, geojson = JArray []\<rparr>
     = 604000 + 10 * 60 * 1000 - elapsed provider_up (make_outbound env_set halifax)"
proof -
  have hit: "Map_get warm_cache (cacheKey provider_down halifax) = Some \<lparr>expiresAt = 600000, geojson = JArray []\<rparr>
             \<and> 599999 < expiresAt \<lparr>expiresAt = 600000, geojson = JArray []\<rparr>"
    by code_simp
  have stale: "Map_get warm_cache (cacheKey provider_down halifax) = Some \<lparr>expiresAt = 600000, geojson = JArray []\<rparr>
             \<and> expiresAt \<lparr>expiresAt = 600000, geojson = JArray []\<rparr> \<le> 600000"
    by code_simp
  have made: "calls (POST provider_up env_set 600000 warm_cache (Some (request_json halifax))) \<noteq> []
             \<and> response (POST provider_up env_set 600000 warm_cache (Some (request_json halifax))) = JsonOk (JArray [])"
    by code_simp
  have at: "cache_set_at (POST provider_up env_set 600000 warm_cache (Some (request_json halifax))) = Some 604000
            \<and> Map_get (cache_after (POST provider_up env_set 600000 warm_cache (Some (request_json halifax))))
                 (cacheKey provider_up halifax)
               = Some \<lparr>expiresAt = 1200000, geojson = JArray []\<rparr>"
    by code_simp
  note down = C7_cache_ttl [OF asIsochroneRequest_request_json env_set_present,
      where P = provider_down and c = warm_cache]
  note up = C7_cache_ttl [OF asIsochroneRequest_request_json env_set_present,
      where P = provider_up and c = warm_cache and now = 600000 and body = halifax]
  note written = up [THEN conjunct2, THEN conjunct2, THEN conjunct1, THEN spec, THEN mp, OF made]
  show ?thesis
    by (intro conjI)
      (rule down [THEN conjunct1, THEN spec, THEN mp, OF hit],
       rule down [THEN conjunct2, THEN conjunct1, THEN spec, THEN mp, OF stale],
       rule written [THEN conjunct1], rule written [THEN conjunct2],
       rule up [THEN conjunct2, THEN conjunct2, THEN conjunct2, THEN spec, THEN spec, THEN mp, OF at])
qed

text \<open>
  C8 does not hold of the handler. A response with a success status whose content type does
  not contain \<open>json\<close> is never parsed (line 95): its text is taken as the result, written
  to the cache at line 109 and answered as a success. Here the provider answers 200 with an
  HTML page, which \<^verbatim>\<open>JSON.parse\<close> would reject: the page replaces the entry of the key
  and is served from the cache for ten minutes. (A response that is not a success, and a
  body that fails to parse under a JSON content type, do leave the cache as it was: see
  \<open>failed_fetch_not_cached\<close> above.)
\<close>

theorem C8_unparsed_body_is_cached:
  "fetch provider_html (make_outbound env_set halifax)
     = Resolved \<lparr>ok = True, status = 200, content_type = Some ''text/html'', body_text = ''<html>''\<rparr>
   \<and> JSON_parse provider_html ''<html>'' = None
   \<and> response (POST provider_html env_set 600000 warm_cache (Some (request_json halifax)))
       = JsonOk (JString ''<html>'')
   \<and> cache_after (POST provider_html env_set 600000 warm_cache (Some (request_json halifax)))
       = [(''44.65110,-63.58270|2026-11-03T08:30:00-04:00|30|public_transport'',
           \<lparr>expiresAt = 1200000, geojson = JString ''<html>''\<rparr>)]
   \<and> response (POST provider_html env_set 700000
                  (cache_after (POST provider_html env_set 600000 warm_cache (Some (request_json halifax))))
                  (Some (request_json halifax)))
       = JsonOk (JString ''<html>'')
   \<and> calls (POST provider_html env_set 700000
               (cache_after (POST provider_html env_set 600000 warm_cache (Some (request_json halifax))))
               (Some (request_json halifax)))
       = []"
  by code_simp



text \<open>
  C10. The key is built from the minutes as posted: requests for 200 and for 1000 minutes
  that agree otherwise have different keys although both travel times are 10800 seconds and
  the outbound calls are equal; with neither key in the cache, the second request issues
  its own call after the first.
\<close>

theorem C10_key_uses_raw_minutes:
  "cacheKey P (body\<lparr>minutes := 200\<rparr>) \<noteq> cacheKey P (body\<lparr>minutes := 1000\<rparr>)
   \<and> travelTimeSeconds 200 = 10800 \<and> travelTimeSeconds 1000 = 10800
   \<and> make_outbound E (body\<lparr>minutes := 200\<rparr>) = make_outbound E (body\<lparr>minutes := 1000\<rparr>)
   \<and> (\<forall>raw200 raw1000 c now1 now2.
         asIsochroneRequest raw200 = Some (body\<lparr>minutes := 200\<rparr>)
         \<and> asIsochroneRequest raw1000 = Some (body\<lparr>minutes := 1000\<rparr>)
         \<and> \<not> missing (TRAVELTIME_APP_ID E) \<and> \<not> missing (TRAVELTIME_API_KEY E)
         \<and> Map_get c (cacheKey P (body\<lparr>minutes := 200\<rparr>)) = None
         \<and> Map_get c (cacheKey P (body\<lparr>minutes := 1000\<rparr>)) = None \<longrightarrow>
         calls (POST P E now1 c (Some raw200)) = [make_outbound E (body\<lparr>minutes := 200\<rparr>)]
         \<and> calls (POST P E now2 (cache_after (POST P E now1 c (Some raw200))) (Some raw1000))
             = [make_outbound E (body\<lparr>minutes := 1000\<rparr>)])"
proof (intro conjI allI impI)
  show "cacheKey P (body\<lparr>minutes := 200\<rparr>) \<noteq> cacheKey P (body\<lparr>minutes := 1000\<rparr>)"
    by (rule cacheKey_200_1000)
  show t200: "travelTimeSeconds 200 = 10800" by code_simp
  show t1000: "travelTimeSeconds 1000 = 10800" by code_simp
  show "make_outbound E (body\<lparr>minutes := 200\<rparr>) = make_outbound E (body\<lparr>minutes := 1000\<rparr>)"
    by (simp add: make_outbound_def make_payload_def t200 t1000)
next
  fix raw200 raw1000 and c :: cache and now1 now2
  assume a: "asIsochroneRequest raw200 = Some (body\<lparr>minutes := 200\<rparr>)
         \<and> asIsochroneRequest raw1000 = Some (body\<lparr>minutes := 1000\<rparr>)
         \<and> \<not> missing (TRAVELTIME_APP_ID E) \<and> \<not> missing (TRAVELTIME_API_KEY E)
         \<and> Map_get c (cacheKey P (body\<lparr>minutes := 200\<rparr>)) = None
         \<and> Map_get c (cacheKey P (body\<lparr>minutes := 1000\<rparr>)) = None"
  then show "calls (POST P E now1 c (Some raw200)) = [make_outbound E (body\<lparr>minutes := 200\<rparr>)]"
    by (intro POST_miss_calls) simp_all
  let ?c1 = "cache_after (POST P E now1 c (Some raw200))"
  have "Map_get ?c1 (cacheKey P (body\<lparr>minutes := 1000\<rparr>)) = None"
    using POST_cache_cases [of P E now1 c "Some raw200"] a cacheKey_200_1000 [of P body]
    by (auto simp: Map_get_Map_set)
  with a show "calls (POST P E now2 ?c1 (Some raw1000)) = [make_outbound E (body\<lparr>minutes := 1000\<rparr>)]"
    by (intro POST_miss_calls) simp_all
qed

text \<open>
  Both requests against an empty cache: two calls, equal, and two entries.
\<close>

theorem C10_key_uses_raw_minutes_witness:
  "calls (POST provider_up env_set 0 [] (Some (request_json (halifax\<lparr>minutes := 200\<rparr>))))
     = [make_outbound env_set (halifax\<lparr>minutes := 200\<rparr>)]
   \<and> calls (POST provider_up env_set 1
        (cache_after (POST provider_up env_set 0 [] (Some (request_json (halifax\<lparr>minutes := 200\<rparr>)))))
        (Some (request_json (halifax\<lparr>minutes := 1000\<rparr>))))
     = [make_outbound env_set (halifax\<lparr>minutes := 1000\<rparr>)]
   \<and> make_outbound env_set (halifax\<lparr>minutes := 200\<rparr>) = make_outbound env_set (halifax\<lparr>minutes := 1000\<rparr>)
   \<and> Map_keys (serve env_set []
        [(provider_up, 0, Some (request_json (halifax\<lparr>minutes := 200\<rparr>))),
         (provider_up, 1, Some (request_json (halifax\<lparr>minutes := 1000\<rparr>)))])
     = [''44.65110,-63.58270|2026-11-03T08:30:00-04:00|200|public_transport'',
        ''44.65110,-63.58270|2026-11-03T08:30:00-04:00|1000|public_transport'']"
proof -
  have pre: "asIsochroneRequest (request_json (halifax\<lparr>minutes := 200\<rparr>)) = Some (halifax\<lparr>minutes := 200\<rparr>)
         \<and> asIsochroneRequest (request_json (halifax\<lparr>minutes := 1000\<rparr>)) = Some (halifax\<lparr>minutes := 1000\<rparr>)
         \<and> \<not> missing (TRAVELTIME_APP_ID env_set) \<and> \<not> missing (TRAVELTIME_API_KEY env_set)
         \<and> Map_get [] (cacheKey provider_up (halifax\<lparr>minutes := 200\<rparr>)) = None
         \<and> Map_get [] (cacheKey provider_up (halifax\<lparr>minutes := 1000\<rparr>)) = None"
    by (simp add: asIsochroneRequest_request_json missing_def env_set_def Map_get_def)
  note law = C10_key_uses_raw_minutes [of provider_up halifax env_set]
  note two = law [THEN conjunct2, THEN conjunct2, THEN conjunct2, THEN conjunct2,
      THEN spec, THEN spec, THEN spec, THEN spec, THEN spec, THEN mp, OF pre, of 0 1]
  have keys: "Map_keys (serve env_set []
        [(provider_up, 0, Some (request_json (halifax\<lparr>minutes := 200\<rparr>))),
         (provider_up, 1, Some (request_json (halifax\<lparr>minutes := 1000\<rparr>)))])
     = [''44.65110,-63.58270|2026-11-03T08:30:00-04:00|200|public_transport'',
        ''44.65110,-63.58270|2026-11-03T08:30:00-04:00|1000|public_transport'']"
    by code_simp
  show ?thesis
    by (intro conjI)
      (rule two [THEN conjunct1], rule two [THEN conjunct2],
       rule law [THEN conjunct2, THEN conjunct2, THEN conjunct2, THEN conjunct1], rule keys)
qed

end
